theory Spec2Isabelle
  imports Complex_Main "HOL-Library.Multiset"
begin

section \<open>Shape operations of geometric_shapes: a shallow embedding\<close>

text \<open>
  The development follows \<^verbatim>\<open>src/shape_operations.cpp\<close>. Conventions:

  \<^item> \<^verbatim>\<open>double\<close> is the type \<open>double\<close> below: NaN or a number. The functions of
    \<^verbatim>\<open>shape_operations.cpp\<close> copy doubles, compare them with \<^verbatim>\<open><\<close> and \<^verbatim>\<open>>\<close>, and
    hand them to the stream library.
  \<^item> \<^verbatim>\<open>unsigned int\<close> and \<^verbatim>\<open>size_t\<close> are \<^typ>\<open>nat\<close>: containers are taken to hold
    fewer than \<open>2^32 div 3\<close> elements, so no conversion or product in the source
    wraps.
  \<^item> A result of pointer type is an \<^typ>\<open>'a option\<close>, \<open>None\<close> being \<^verbatim>\<open>NULL\<close>.
  \<^item> A write past the end of an array is recorded: the call returns the elements
    it wrote there next to its result.
  \<^item> The console (\<^verbatim>\<open>logWarn\<close>, \<^verbatim>\<open>logError\<close>) is the list of entries a call
    emits, returned next to the result.
\<close>

subsection \<open>Doubles\<close>

text \<open>
  A double is NaN or a number. The two zeros compare equal and are the one number
  \<open>Num 0\<close>; the infinities, which are copied and compared like numbers, are left
  out. Every comparison with NaN is false. A numeral denotes the number it names.
  Arithmetic, which occurs in \<^verbatim>\<open>computeNormals\<close> only, is that of the reals on
  numbers and gives NaN on NaN; the only division there has a divisor that is
  not zero.
\<close>

datatype double = NaN | Num real

fun lift1 :: "(real \<Rightarrow> real) \<Rightarrow> double \<Rightarrow> double" where
  "lift1 f (Num a) = Num (f a)"
| "lift1 f NaN = NaN"

fun lift2 :: "(real \<Rightarrow> real \<Rightarrow> real) \<Rightarrow> double \<Rightarrow> double \<Rightarrow> double" where
  "lift2 f (Num a) (Num b) = Num (f a b)"
| "lift2 f NaN b = NaN"
| "lift2 f (Num a) NaN = NaN"

fun compare2 :: "(real \<Rightarrow> real \<Rightarrow> bool) \<Rightarrow> double \<Rightarrow> double \<Rightarrow> bool" where
  "compare2 r (Num a) (Num b) = r a b"
| "compare2 r NaN b = False"
| "compare2 r (Num a) NaN = False"

instantiation double :: "{zero, one, numeral, minus, uminus, times, inverse, power, ord}"
begin

definition zero_double :: double where
  "zero_double = Num 0"

definition one_double :: double where
  "one_double = Num 1"

definition plus_double :: "double \<Rightarrow> double \<Rightarrow> double" where
  "plus_double = lift2 (+)"

definition minus_double :: "double \<Rightarrow> double \<Rightarrow> double" where
  "minus_double = lift2 (-)"

definition uminus_double :: "double \<Rightarrow> double" where
  "uminus_double = lift1 uminus"

definition times_double :: "double \<Rightarrow> double \<Rightarrow> double" where
  "times_double = lift2 (*)"

definition divide_double :: "double \<Rightarrow> double \<Rightarrow> double" where
  "divide_double = lift2 (/)"

definition inverse_double :: "double \<Rightarrow> double" where
  "inverse_double = lift1 inverse"

definition less_double :: "double \<Rightarrow> double \<Rightarrow> bool" where
  "less_double = compare2 (<)"

definition less_eq_double :: "double \<Rightarrow> double \<Rightarrow> bool" where
  "less_eq_double = compare2 (\<le>)"

instance
proof
  fix a b c :: double
  show "a + b + c = a + (b + c)"
    by (cases a; cases b; cases c) (simp_all add: plus_double_def)
qed

end

definition sqrt_double :: "double \<Rightarrow> double" where
  "sqrt_double = lift1 sqrt"

subsection \<open>Console\<close>

datatype LogLevel = LOG_WARN | LOG_ERROR

type_synonym log = "(LogLevel \<times> string) list"

definition logWarn :: "string \<Rightarrow> log" where
  "logWarn msg = [(LOG_WARN, msg)]"

definition logError :: "string \<Rightarrow> log" where
  "logError msg = [(LOG_ERROR, msg)]"

subsection \<open>Shapes\<close>

type_synonym Vector3d = "double \<times> double \<times> double"

text \<open>
  Modelled from the spec: the classes of \<^verbatim>\<open>shapes.h\<close> (the header is not among the
  sources). A mesh owns \<open>vertex_count\<close>, \<open>triangle_count\<close>, a flat array of
  \<open>3 * vertex_count\<close> coordinates, a flat array of \<open>3 * triangle_count\<close> vertex
  indices and a flat array of \<open>3 * triangle_count\<close> normal coordinates.
\<close>

record Mesh =
  vertex_count :: nat
  triangle_count :: nat
  vertices :: "double list"
  triangles :: "nat list"
  normals :: "double list"

text \<open>The arrays of a mesh have the sizes its constructor gives them.\<close>

definition mesh_sized :: "Mesh \<Rightarrow> bool" where
  "mesh_sized m \<longleftrightarrow>
     length (vertices m) = 3 * vertex_count m \<and>
     length (triangles m) = 3 * triangle_count m \<and>
     length (normals m) = 3 * triangle_count m"

datatype ShapeType =
  UNKNOWN_SHAPE | SPHERE | CYLINDER | CONE | BOX | PLANE | MESH | OCTREE

text \<open>
  Modelled from the spec: the shape variants, one constructor per class, each with
  the fields the spec lists; \<open>OcTree\<close> is opaque, \<open>UnknownShape\<close> is a shape whose
  discriminant is none of the seven named ones.
\<close>

datatype Shape =
    Sphere double
  | Box double double double
  | Cylinder double double
  | Cone double double
  | Plane double double double double
  | MeshShape Mesh
  | OcTree
  | UnknownShape

fun shape_type :: "Shape \<Rightarrow> ShapeType" where
  "shape_type (Sphere r) = SPHERE"
| "shape_type (Box a b c) = BOX"
| "shape_type (Cylinder r l) = CYLINDER"
| "shape_type (Cone r l) = CONE"
| "shape_type (Plane a b c d) = PLANE"
| "shape_type (MeshShape m) = MESH"
| "shape_type OcTree = OCTREE"
| "shape_type UnknownShape = UNKNOWN_SHAPE"

subsection \<open>Normals\<close>

text \<open>
  A read of a flat array. Outside the array the source reads whatever the memory
  at that place holds, if the read does not fault: a value, depending on the
  array and the position, about which nothing is known.
\<close>

definition array_read :: "'a list \<Rightarrow> nat \<Rightarrow> 'a" where
  "array_read xs i = (if i < length xs then xs ! i else undefined xs i)"

definition mesh_vertex :: "Mesh \<Rightarrow> nat \<Rightarrow> Vector3d" where
  "mesh_vertex m i =
     (array_read (vertices m) (3 * i),
      array_read (vertices m) (3 * i + 1),
      array_read (vertices m) (3 * i + 2))"

definition cross :: "Vector3d \<Rightarrow> Vector3d \<Rightarrow> Vector3d" where
  "cross a b =
     (case a of (ax, ay, az) \<Rightarrow> case b of (bx, by, bz) \<Rightarrow>
        (ay * bz - az * by, az * bx - ax * bz, ax * by - ay * bx))"

definition minus3 :: "Vector3d \<Rightarrow> Vector3d \<Rightarrow> Vector3d" where
  "minus3 a b =
     (case a of (ax, ay, az) \<Rightarrow> case b of (bx, by, bz) \<Rightarrow> (ax - bx, ay - by, az - bz))"

definition normalize :: "Vector3d \<Rightarrow> double list" where
  "normalize v =
     (case v of (a, b, c) \<Rightarrow>
        let mag = sqrt_double (a * a + b * b + c * c)
        in if mag = 0 then [0, 0, 0] else [a / mag, b / mag, c / mag])"

definition triangle_normal :: "Mesh \<Rightarrow> nat \<Rightarrow> double list" where
  "triangle_normal m i =
     (let v0 = mesh_vertex m (array_read (triangles m) (3 * i));
          v1 = mesh_vertex m (array_read (triangles m) (3 * i + 1));
          v2 = mesh_vertex m (array_read (triangles m) (3 * i + 2))
      in normalize (cross (minus3 v1 v0) (minus3 v2 v0)))"

text \<open>
  Modelled from the spec: \<^verbatim>\<open>Mesh::computeNormals\<close> (in \<^verbatim>\<open>shapes.cpp\<close>, not among the
  sources). One normal per triangle, the normalised cross product of two edges,
  the zero vector for a degenerate triangle; every normal is recomputed, nothing
  else of the mesh changes.
\<close>

definition computeNormals :: "Mesh \<Rightarrow> Mesh" where
  "computeNormals m =
     m\<lparr>normals := concat (map (triangle_normal m) [0..<triangle_count m])\<rparr>"

subsection \<open>Mesh construction from vertices and triangle indices\<close>

text \<open>
  The loop that stores the three components of \<open>vs ! i\<close> at \<open>3 * i\<close>, \<open>3 * i + 1\<close>,
  \<open>3 * i + 2\<close> of a flat array, for every \<open>i < length vs\<close>; the array has
  \<open>3 * length vs\<close> elements, so that each of them is written.
\<close>

definition flatten3 :: "('a \<times> 'a \<times> 'a) list \<Rightarrow> 'a list" where
  "flatten3 vs =
     concat (map (\<lambda>i. case vs ! i of (a, b, c) \<Rightarrow> [a, b, c]) [0..<length vs])"

text \<open>
  \<^verbatim>\<open>std::copy(first, last, dst)\<close> into an array of \<open>n\<close> elements writes every element
  of the source, one slot after the other, with no regard to \<open>n\<close>. The result is
  the pair of what the array holds afterwards and of what was written past its
  end, into memory that is not the array's: the second component is empty exactly
  when the source has at most \<open>n\<close> elements. The language leaves a program that
  writes there undefined.
\<close>

definition std_copy :: "'a list \<Rightarrow> nat \<Rightarrow> 'a list \<times> 'a list" where
  "std_copy src n = (take n src, drop n src)"

text \<open>
  \<^verbatim>\<open>new Mesh(vertices.size(), nt)\<close> allocates the three arrays, the one of the
  indices with \<open>3 * nt\<close> slots; the loop and \<^verbatim>\<open>std::copy\<close> fill the first two,
  \<^verbatim>\<open>computeNormals\<close> the third. The pointer returned is never null. The first
  component of the result is what \<^verbatim>\<open>std::copy\<close> wrote past the end of the array of
  the indices.
\<close>

definition createMeshFromVertices :: "Vector3d list \<Rightarrow> nat list \<Rightarrow> nat list \<times> Mesh option"
  where
  "createMeshFromVertices vs ts =
     (let nt = length ts div 3;
          copied = std_copy ts (3 * nt);
          mesh = \<lparr>vertex_count = length vs, triangle_count = nt,
                  vertices = flatten3 vs,
                  triangles = fst copied,
                  normals = []\<rparr>
      in (snd copied, Some (computeNormals mesh)))"

subsection \<open>Mesh construction from a triangle soup\<close>

record LocalVertexType =
  vx :: double
  vy :: double
  vz :: double
  index :: nat

text \<open>The constructor from a vector sets the coordinates and leaves \<open>index\<close> unset.\<close>

definition LocalVertex :: "Vector3d \<Rightarrow> LocalVertexType" where
  "LocalVertex v = (case v of (a, b, c) \<Rightarrow> \<lparr>vx = a, vy = b, vz = c, index = undefined\<rparr>)"

definition ltLocalVertexValue :: "LocalVertexType \<Rightarrow> LocalVertexType \<Rightarrow> bool" where
  "ltLocalVertexValue p1 p2 =
     (if vx p1 < vx p2 then True
      else if vx p1 > vx p2 then False
      else if vy p1 < vy p2 then True
      else if vy p1 > vy p2 then False
      else if vz p1 < vz p2 then True
      else False)"

definition ltLocalVertexIndex :: "LocalVertexType \<Rightarrow> LocalVertexType \<Rightarrow> bool" where
  "ltLocalVertexIndex p1 p2 = (index p1 < index p2)"

text \<open>
  \<^verbatim>\<open>std::set<LocalVertexType, ltLocalVertexValue>\<close> is its sequence of elements in
  ascending order of the comparison. \<open>find\<close> goes to the first element that is not
  less than the key and returns it unless the key is less than it; \<open>insert\<close> puts
  the element at its place unless an equivalent one is there. On points without
  NaN the comparison is a strict total order and this is what the library's
  search tree does. With NaN it is no ordering, and what the tree finds depends
  on its shape; a set of one element, however, is one node, which the tree
  compares with the key as is done here.
\<close>

fun set_find :: "LocalVertexType list \<Rightarrow> LocalVertexType \<Rightarrow> LocalVertexType option" where
  "set_find [] k = None"
| "set_find (e # es) k =
     (if ltLocalVertexValue e k then set_find es k
      else if ltLocalVertexValue k e then None
      else Some e)"

fun set_insert :: "LocalVertexType \<Rightarrow> LocalVertexType list \<Rightarrow> LocalVertexType list" where
  "set_insert v [] = [v]"
| "set_insert v (e # es) =
     (if ltLocalVertexValue e v then e # set_insert v es
      else if ltLocalVertexValue v e then v # e # es
      else e # es)"

text \<open>
  The block the loop body runs for each of the three corners of a triangle: look
  the point up, give it the next index and insert it when it is new, take the
  index found otherwise, and push the index.
\<close>

fun add_vertex ::
  "Vector3d \<Rightarrow> LocalVertexType list \<times> nat list \<Rightarrow> LocalVertexType list \<times> nat list" where
  "add_vertex p (vs, ts) =
     (let vt = LocalVertex p
      in (case set_find vs vt of
            None \<Rightarrow>
              (let vt' = vt\<lparr>index := length vs\<rparr>
               in (set_insert vt' vs, ts @ [index vt']))
          | Some q \<Rightarrow>
              (let vt' = vt\<lparr>index := index q\<rparr>
               in (vs, ts @ [index vt']))))"

definition soup_triangle ::
  "Vector3d list \<Rightarrow> nat \<Rightarrow> LocalVertexType list \<times> nat list \<Rightarrow> LocalVertexType list \<times> nat list"
  where
  "soup_triangle source i st =
     (let i3 = i * 3;
          st1 = add_vertex (source ! i3) st;
          st2 = add_vertex (source ! (i3 + 1)) st1
      in add_vertex (source ! (i3 + 2)) st2)"

text \<open>
  \<^verbatim>\<open>std::sort(vt.begin(), vt.end(), ltLocalVertexIndex())\<close>. An element is inserted
  exactly when the search has found none, with the size of the set as its index,
  so the indices of the elements are pairwise distinct and the order of the
  result does not depend on the sorting algorithm.
\<close>

definition sort_by_index :: "LocalVertexType list \<Rightarrow> LocalVertexType list" where
  "sort_by_index vt = sort_key index vt"

definition flatten_local :: "LocalVertexType list \<Rightarrow> double list" where
  "flatten_local vt = concat (map (\<lambda>i. [vx (vt ! i), vy (vt ! i), vz (vt ! i)]) [0..<length vt])"

definition not_divisible_msg :: string where
  "not_divisible_msg = ''The number of vertices to construct a mesh from is not divisible by 3. Probably constructed triangles will not make sense.''"

text \<open>
  The vector of the indices gets three elements per triangle, so \<open>nt\<close> is the
  number of triangles, \<^verbatim>\<open>std::copy\<close> fills the array of \<open>3 * nt\<close> slots and writes
  nothing past its end (\<open>soup_copy_fits\<close> below).
\<close>

definition createMeshFromVertices_source :: "Vector3d list \<Rightarrow> log \<times> Mesh option" where
  "createMeshFromVertices_source source =
     (if length source < 3 then ([], None)
      else
        let lg = (if length source mod 3 \<noteq> 0 then logError not_divisible_msg else []);
            n = length source div 3;
            st = fold (soup_triangle source) [0..<n] ([], []);
            vt = sort_by_index (fst st);
            nt = length (snd st) div 3;
            mesh = \<lparr>vertex_count = length vt, triangle_count = nt,
                    vertices = flatten_local vt,
                    triangles = fst (std_copy (snd st) (3 * nt)),
                    normals = []\<rparr>
        in (lg, Some (computeNormals mesh)))"

subsection \<open>Shape messages\<close>

text \<open>
  Modelled from the spec: the message types of \<^verbatim>\<open>shape_msgs\<close> and the variant
  \<^verbatim>\<open>ShapeMsg\<close> of \<^verbatim>\<open>shape_messages.h\<close> (none of them among the sources). The \<open>type\<close>
  of a primitive is a byte that the source compares with four named constants; it
  is one of the four names or some other byte. A plane has four coefficients, a
  mesh a list of points and a list of index triples.
\<close>

datatype SolidPrimitiveType =
    SolidPrimitive_BOX
  | SolidPrimitive_SPHERE
  | SolidPrimitive_CYLINDER
  | SolidPrimitive_CONE
  | SolidPrimitive_other nat

record SolidPrimitive =
  type :: SolidPrimitiveType
  dimensions :: "double list"

record PlaneMsg =
  coef :: "double \<times> double \<times> double \<times> double"

record MeshMsg =
  msg_triangles :: "(nat \<times> nat \<times> nat) list"
  msg_vertices :: "Vector3d list"

datatype ShapeMsg =
    SolidPrimitiveMsg SolidPrimitive
  | MeshShapeMsg MeshMsg
  | PlaneShapeMsg PlaneMsg

text \<open>
  Modelled from the spec: the fixed offsets into \<open>dimensions\<close> (sphere: radius at 0;
  box: x, y, z at 0, 1, 2; cylinder and cone: radius at 0, height at 1) and the
  number of dimensions of each kind (\<^verbatim>\<open>shape_tools::SolidPrimitiveDimCount\<close>, which
  the source uses for the four kinds only).
\<close>

definition SPHERE_RADIUS :: nat where "SPHERE_RADIUS = 0"
definition BOX_X :: nat where "BOX_X = 0"
definition BOX_Y :: nat where "BOX_Y = 1"
definition BOX_Z :: nat where "BOX_Z = 2"
definition CYLINDER_RADIUS :: nat where "CYLINDER_RADIUS = 0"
definition CYLINDER_HEIGHT :: nat where "CYLINDER_HEIGHT = 1"
definition CONE_RADIUS :: nat where "CONE_RADIUS = 0"
definition CONE_HEIGHT :: nat where "CONE_HEIGHT = 1"

fun SolidPrimitiveDimCount :: "SolidPrimitiveType \<Rightarrow> nat" where
  "SolidPrimitiveDimCount SolidPrimitive_SPHERE = 1"
| "SolidPrimitiveDimCount SolidPrimitive_BOX = 3"
| "SolidPrimitiveDimCount SolidPrimitive_CYLINDER = 2"
| "SolidPrimitiveDimCount SolidPrimitive_CONE = 2"
| "SolidPrimitiveDimCount (SolidPrimitive_other b) = 0"

subsection \<open>From a message to a shape\<close>

text \<open>
  A log entry carries the format string of the call; the number a \<^verbatim>\<open>%d\<close> stands for
  is not rendered.
\<close>

definition constructShapeFromMsg_Plane :: "PlaneMsg \<Rightarrow> log \<times> Shape option" where
  "constructShapeFromMsg_Plane shape_msg =
     (case coef shape_msg of (c0, c1, c2, c3) \<Rightarrow> ([], Some (Plane c0 c1 c2 c3)))"

text \<open>
  The vector of the indices is made with three elements per triangle of the
  message, so \<^verbatim>\<open>createMeshFromVertices\<close> writes nothing past the end of an array in
  this call (\<open>flatten3_copy_fits\<close> below).
\<close>

definition constructShapeFromMsg_Mesh :: "MeshMsg \<Rightarrow> log \<times> Shape option" where
  "constructShapeFromMsg_Mesh shape_msg =
     (if msg_triangles shape_msg = [] \<or> msg_vertices shape_msg = []
      then (logWarn ''Mesh definition is empty'', None)
      else
        let vertices = map (\<lambda>i. msg_vertices shape_msg ! i) [0..<length (msg_vertices shape_msg)];
            triangles = flatten3 (msg_triangles shape_msg)
        in ([], map_option MeshShape (snd (createMeshFromVertices vertices triangles))))"

definition constructShapeFromMsg_SolidPrimitive :: "SolidPrimitive \<Rightarrow> log \<times> Shape option" where
  "constructShapeFromMsg_SolidPrimitive shape_msg =
     (let d = dimensions shape_msg;
          shape =
            (if type shape_msg = SolidPrimitive_SPHERE then
               (if length d > SPHERE_RADIUS then Some (Sphere (d ! SPHERE_RADIUS)) else None)
             else if type shape_msg = SolidPrimitive_BOX then
               (if length d > BOX_X \<and> length d > BOX_Y \<and> length d > BOX_Z
                then Some (Box (d ! BOX_X) (d ! BOX_Y) (d ! BOX_Z)) else None)
             else if type shape_msg = SolidPrimitive_CYLINDER then
               (if length d > CYLINDER_RADIUS \<and> length d > CYLINDER_HEIGHT
                then Some (Cylinder (d ! CYLINDER_RADIUS) (d ! CYLINDER_HEIGHT)) else None)
             else if type shape_msg = SolidPrimitive_CONE then
               (if length d > CONE_RADIUS \<and> length d > CONE_HEIGHT
                then Some (Cone (d ! CONE_RADIUS) (d ! CONE_HEIGHT)) else None)
             else None)
      in (if shape = None
          then logError ''Unable to construct shape corresponding to shape_msgect of type %d''
          else [],
          shape))"

text \<open>\<^verbatim>\<open>boost::apply_visitor(ShapeVisitorAlloc(), shape_msg)\<close>.\<close>

fun constructShapeFromMsg :: "ShapeMsg \<Rightarrow> log \<times> Shape option" where
  "constructShapeFromMsg (PlaneShapeMsg shape_msg) = constructShapeFromMsg_Plane shape_msg"
| "constructShapeFromMsg (MeshShapeMsg shape_msg) = constructShapeFromMsg_Mesh shape_msg"
| "constructShapeFromMsg (SolidPrimitiveMsg shape_msg) =
     constructShapeFromMsg_SolidPrimitive shape_msg"

subsection \<open>From a shape to a message\<close>

text \<open>
  \<^verbatim>\<open>s.dimensions.resize(n)\<close> on a new message gives \<open>n\<close> zeros, which the assignments
  then overwrite. The result is the boolean returned and the message the reference
  parameter holds afterwards.
\<close>

fun constructMsgFromShape :: "Shape \<Rightarrow> ShapeMsg \<Rightarrow> log \<times> bool \<times> ShapeMsg" where
  "constructMsgFromShape (Sphere radius) shape_msg =
     ([], True,
      SolidPrimitiveMsg
        \<lparr>type = SolidPrimitive_SPHERE,
         dimensions =
           (replicate (SolidPrimitiveDimCount SolidPrimitive_SPHERE) 0)[SPHERE_RADIUS := radius]\<rparr>)"
| "constructMsgFromShape (Box sz0 sz1 sz2) shape_msg =
     ([], True,
      SolidPrimitiveMsg
        \<lparr>type = SolidPrimitive_BOX,
         dimensions =
           (replicate (SolidPrimitiveDimCount SolidPrimitive_BOX) 0)
             [BOX_X := sz0, BOX_Y := sz1, BOX_Z := sz2]\<rparr>)"
| "constructMsgFromShape (Cylinder radius len) shape_msg =
     ([], True,
      SolidPrimitiveMsg
        \<lparr>type = SolidPrimitive_CYLINDER,
         dimensions =
           (replicate (SolidPrimitiveDimCount SolidPrimitive_CYLINDER) 0)
             [CYLINDER_RADIUS := radius, CYLINDER_HEIGHT := len]\<rparr>)"
| "constructMsgFromShape (Cone radius len) shape_msg =
     ([], True,
      SolidPrimitiveMsg
        \<lparr>type = SolidPrimitive_CONE,
         dimensions =
           (replicate (SolidPrimitiveDimCount SolidPrimitive_CONE) 0)
             [CONE_RADIUS := radius, CONE_HEIGHT := len]\<rparr>)"
| "constructMsgFromShape (Plane a b c d) shape_msg =
     ([], True, PlaneShapeMsg \<lparr>coef = (a, b, c, d)\<rparr>)"
| "constructMsgFromShape (MeshShape mesh) shape_msg =
     ([], True,
      MeshShapeMsg
        \<lparr>msg_triangles =
           map (\<lambda>i. (array_read (triangles mesh) (i * 3),
                      array_read (triangles mesh) (i * 3 + 1),
                      array_read (triangles mesh) (i * 3 + 2)))
             [0..<triangle_count mesh],
         msg_vertices =
           map (\<lambda>i. (array_read (vertices mesh) (i * 3),
                      array_read (vertices mesh) (i * 3 + 1),
                      array_read (vertices mesh) (i * 3 + 2)))
             [0..<vertex_count mesh]\<rparr>)"
| "constructMsgFromShape shape shape_msg =
     (logError ''Unable to construct shape message for shape of type %d'', False, shape_msg)"

subsection \<open>Extents\<close>

text \<open>
  \<^verbatim>\<open>shape_tools::getShapeExtents\<close> belongs to another package; its two overloads are
  parameters of the functions that call them.
\<close>

record shape_tools =
  getShapeExtents_Mesh :: "MeshMsg \<Rightarrow> Vector3d"
  getShapeExtents_SolidPrimitive :: "SolidPrimitive \<Rightarrow> Vector3d"

text \<open>\<^verbatim>\<open>boost::apply_visitor(ShapeVisitorComputeExtents(), shape_msg)\<close>.\<close>

fun computeShapeExtents :: "shape_tools \<Rightarrow> ShapeMsg \<Rightarrow> Vector3d" where
  "computeShapeExtents tools (PlaneShapeMsg shape_msg) = (0, 0, 0)"
| "computeShapeExtents tools (MeshShapeMsg shape_msg) = getShapeExtents_Mesh tools shape_msg"
| "computeShapeExtents tools (SolidPrimitiveMsg shape_msg) =
     getShapeExtents_SolidPrimitive tools shape_msg"

text \<open>A default-constructed \<^verbatim>\<open>ShapeMsg\<close>: an empty primitive message.\<close>

definition ShapeMsg_default :: ShapeMsg where
  "ShapeMsg_default = SolidPrimitiveMsg \<lparr>type = SolidPrimitive_other 0, dimensions = []\<rparr>"

definition computeShapeExtents_Shape :: "shape_tools \<Rightarrow> Shape \<Rightarrow> log \<times> Vector3d" where
  "computeShapeExtents_Shape tools shape =
     (case constructMsgFromShape shape ShapeMsg_default of
        (lg, ok, shape_msg) \<Rightarrow>
          if ok then (lg, computeShapeExtents tools shape_msg) else (lg, (0, 0, 0)))"

subsection \<open>Text input\<close>

text \<open>
  A \<^verbatim>\<open>std::istream\<close> is the characters not yet read and its state flags
  (\<open>failbit\<close> stands for \<^verbatim>\<open>failbit\<close> or \<^verbatim>\<open>badbit\<close>). The operations are those of the
  C++ library as the standard describes them: an extraction first skips white
  space, and fails, setting \<^verbatim>\<open>eofbit\<close> and \<^verbatim>\<open>failbit\<close>, when nothing is left; it
  fails at once, leaving its target alone, on a stream that is not good; reading
  up to the end of the input sets \<^verbatim>\<open>eofbit\<close>.
\<close>

record istream =
  chars :: string
  eofbit :: bool
  failbit :: bool

definition good :: "istream \<Rightarrow> bool" where
  "good s \<longleftrightarrow> \<not> eofbit s \<and> \<not> failbit s"

definition eof :: "istream \<Rightarrow> bool" where
  "eof s \<longleftrightarrow> eofbit s"

definition isspace :: "char \<Rightarrow> bool" where
  "isspace c \<longleftrightarrow> c \<in> set [CHR '' '', CHR 0x09, CHR 0x0A, CHR 0x0B, CHR 0x0C, CHR 0x0D]"

definition sentry :: "istream \<Rightarrow> bool \<times> istream" where
  "sentry s =
     (if \<not> good s then (False, s\<lparr>failbit := True\<rparr>)
      else
        let r = dropWhile isspace (chars s)
        in if r = [] then (False, s\<lparr>chars := [], eofbit := True, failbit := True\<rparr>)
           else (True, s\<lparr>chars := r\<rparr>))"

text \<open>\<^verbatim>\<open>in >> str\<close> for a \<^verbatim>\<open>std::string\<close>: the characters up to the next white space.\<close>

definition get_string :: "istream \<Rightarrow> string \<Rightarrow> string \<times> istream" where
  "get_string s str =
     (case sentry s of
        (False, s') \<Rightarrow> (str, s')
      | (True, s') \<Rightarrow>
          let rest = dropWhile (\<lambda>c. \<not> isspace c) (chars s')
          in (takeWhile (\<lambda>c. \<not> isspace c) (chars s'), s'\<lparr>chars := rest, eofbit := (rest = [])\<rparr>))"

text \<open>
  The conversion of characters to a number (\<^verbatim>\<open>std::num_get\<close>) is a parameter: from
  the characters at the read position and the value the target holds it gives the
  value the target holds afterwards, whether the conversion succeeded, and the
  characters left. So are the values that uninitialised variables and arrays hold.
\<close>

record text_env =
  num_get_double :: "string \<Rightarrow> double \<Rightarrow> double \<times> bool \<times> string"
  num_get_unsigned :: "string \<Rightarrow> nat \<Rightarrow> nat \<times> bool \<times> string"
  uninit_double :: double
  uninit_unsigned :: nat

text \<open>\<^verbatim>\<open>in >> v\<close> for a number \<open>v\<close>.\<close>

definition get_number ::
  "(string \<Rightarrow> 'a \<Rightarrow> 'a \<times> bool \<times> string) \<Rightarrow> istream \<Rightarrow> 'a \<Rightarrow> 'a \<times> istream" where
  "get_number conv s v =
     (case sentry s of
        (False, s') \<Rightarrow> (v, s')
      | (True, s') \<Rightarrow>
          (case conv (chars s') v of
             (v', ok, rest) \<Rightarrow>
               (v', s'\<lparr>chars := rest, eofbit := (rest = []), failbit := \<not> ok\<rparr>)))"

text \<open>
  The body of the two loops of the mesh case: three extractions into the slots
  \<open>i * 3\<close>, \<open>i * 3 + 1\<close>, \<open>i * 3 + 2\<close> of an array.
\<close>

definition get_slot ::
  "(string \<Rightarrow> 'a \<Rightarrow> 'a \<times> bool \<times> string) \<Rightarrow> nat \<Rightarrow> 'a list \<times> istream \<Rightarrow> 'a list \<times> istream"
  where
  "get_slot conv k st =
     (case st of (arr, s) \<Rightarrow>
        (case get_number conv s (arr ! k) of (v, s') \<Rightarrow> (arr[k := v], s')))"

definition get_triple ::
  "(string \<Rightarrow> 'a \<Rightarrow> 'a \<times> bool \<times> string) \<Rightarrow> nat \<Rightarrow> 'a list \<times> istream \<Rightarrow> 'a list \<times> istream"
  where
  "get_triple conv i st =
     (let i3 = i * 3
      in get_slot conv (i3 + 2) (get_slot conv (i3 + 1) (get_slot conv i3 st)))"

text \<open>Modelled from the spec: the type names (\<^verbatim>\<open>STRING_NAME\<close> of each class).\<close>

definition Sphere_STRING_NAME :: string where "Sphere_STRING_NAME = ''sphere''"
definition Box_STRING_NAME :: string where "Box_STRING_NAME = ''box''"
definition Cylinder_STRING_NAME :: string where "Cylinder_STRING_NAME = ''cylinder''"
definition Cone_STRING_NAME :: string where "Cone_STRING_NAME = ''cone''"
definition Plane_STRING_NAME :: string where "Plane_STRING_NAME = ''plane''"
definition Mesh_STRING_NAME :: string where "Mesh_STRING_NAME = ''mesh''"

definition unknown_type_msg :: "string \<Rightarrow> string" where
  "unknown_type_msg t = ''Unknown shape type: '' @ [CHR 0x27] @ t @ [CHR 0x27]"

text \<open>
  The result is the entries logged, the pointer returned and the stream as the call
  leaves it.
\<close>

definition constructShapeFromText :: "text_env \<Rightarrow> istream \<Rightarrow> log \<times> Shape option \<times> istream" where
  "constructShapeFromText env inp =
     (if good inp \<and> \<not> eof inp then
        (case get_string inp [] of (type', s0) \<Rightarrow>
           if good s0 \<and> \<not> eof s0 then
             if type' = Sphere_STRING_NAME then
               (case get_number (num_get_double env) s0 (uninit_double env) of (radius, s1) \<Rightarrow>
                  ([], Some (Sphere radius), s1))
             else if type' = Box_STRING_NAME then
               (case get_number (num_get_double env) s0 (uninit_double env) of (x, s1) \<Rightarrow>
                case get_number (num_get_double env) s1 (uninit_double env) of (y, s2) \<Rightarrow>
                case get_number (num_get_double env) s2 (uninit_double env) of (z, s3) \<Rightarrow>
                  ([], Some (Box x y z), s3))
             else if type' = Cylinder_STRING_NAME then
               (case get_number (num_get_double env) s0 (uninit_double env) of (r, s1) \<Rightarrow>
                case get_number (num_get_double env) s1 (uninit_double env) of (l, s2) \<Rightarrow>
                  ([], Some (Cylinder r l), s2))
             else if type' = Cone_STRING_NAME then
               (case get_number (num_get_double env) s0 (uninit_double env) of (r, s1) \<Rightarrow>
                case get_number (num_get_double env) s1 (uninit_double env) of (l, s2) \<Rightarrow>
                  ([], Some (Cone r l), s2))
             else if type' = Plane_STRING_NAME then
               (case get_number (num_get_double env) s0 (uninit_double env) of (a, s1) \<Rightarrow>
                case get_number (num_get_double env) s1 (uninit_double env) of (b, s2) \<Rightarrow>
                case get_number (num_get_double env) s2 (uninit_double env) of (c, s3) \<Rightarrow>
                case get_number (num_get_double env) s3 (uninit_double env) of (d, s4) \<Rightarrow>
                  ([], Some (Plane a b c d), s4))
             else if type' = Mesh_STRING_NAME then
               (case get_number (num_get_unsigned env) s0 (uninit_unsigned env) of (v, s1) \<Rightarrow>
                case get_number (num_get_unsigned env) s1 (uninit_unsigned env) of (t, s2) \<Rightarrow>
                case fold (get_triple (num_get_double env)) [0..<v]
                       (replicate (3 * v) (uninit_double env), s2) of (vs, s3) \<Rightarrow>
                case fold (get_triple (num_get_unsigned env)) [0..<t]
                       (replicate (3 * t) (uninit_unsigned env), s3) of (ts, s4) \<Rightarrow>
                  ([],
                   Some (MeshShape (computeNormals
                     \<lparr>vertex_count = v, triangle_count = t, vertices = vs, triangles = ts,
                      normals = replicate (3 * t) (uninit_double env)\<rparr>)),
                   s4))
             else (logError (unknown_type_msg type'), None, s0)
           else ([], None, s0))
      else ([], None, inp))"

subsection \<open>Text output\<close>

text \<open>
  A \<^verbatim>\<open>std::ostream\<close> is the characters written so far and its precision, the number
  of significant digits \<^verbatim>\<open>operator<<\<close> gives a double (6 for a stream as it is
  constructed). The conversion of a number to characters (\<^verbatim>\<open>std::num_put\<close>) is a
  parameter, as the conversion from characters is.
\<close>

record ostream =
  written :: string
  precision :: nat

record num_put =
  put_double :: "nat \<Rightarrow> double \<Rightarrow> string"
  put_unsigned :: "nat \<Rightarrow> string"

definition put_string :: "ostream \<Rightarrow> string \<Rightarrow> ostream" where
  "put_string out s = out\<lparr>written := written out @ s\<rparr>"

definition endl :: "ostream \<Rightarrow> ostream" where
  "endl out = put_string out [CHR 0x0A]"

definition put_real :: "num_put \<Rightarrow> ostream \<Rightarrow> double \<Rightarrow> ostream" where
  "put_real lib out x = put_string out (put_double lib (precision out) x)"

definition put_nat :: "num_put \<Rightarrow> ostream \<Rightarrow> nat \<Rightarrow> ostream" where
  "put_nat lib out n = put_string out (put_unsigned lib n)"

text \<open>One line of three numbers separated by blanks.\<close>

definition put_real3 :: "num_put \<Rightarrow> ostream \<Rightarrow> double \<Rightarrow> double \<Rightarrow> double \<Rightarrow> ostream"
  where
  "put_real3 lib out a b c =
     endl (put_real lib (put_string (put_real lib (put_string (put_real lib out a) '' '') b) '' '') c)"

definition put_nat3 :: "num_put \<Rightarrow> ostream \<Rightarrow> nat \<Rightarrow> nat \<Rightarrow> nat \<Rightarrow> ostream" where
  "put_nat3 lib out a b c =
     endl (put_nat lib (put_string (put_nat lib (put_string (put_nat lib out a) '' '') b) '' '') c)"

fun saveAsText :: "num_put \<Rightarrow> Shape \<Rightarrow> ostream \<Rightarrow> log \<times> ostream" where
  "saveAsText lib (Sphere radius) out =
     ([], endl (put_real lib (endl (put_string out Sphere_STRING_NAME)) radius))"
| "saveAsText lib (Box sz0 sz1 sz2) out =
     ([], put_real3 lib (endl (put_string out Box_STRING_NAME)) sz0 sz1 sz2)"
| "saveAsText lib (Cylinder radius len) out =
     ([], endl (put_real lib (put_string
            (put_real lib (endl (put_string out Cylinder_STRING_NAME)) radius) '' '') len))"
| "saveAsText lib (Cone radius len) out =
     ([], endl (put_real lib (put_string
            (put_real lib (endl (put_string out Cone_STRING_NAME)) radius) '' '') len))"
| "saveAsText lib (Plane a b c d) out =
     ([], endl (put_real lib (put_string (put_real lib (put_string (put_real lib (put_string
            (put_real lib (endl (put_string out Plane_STRING_NAME)) a) '' '') b) '' '') c) '' '')
            d))"
| "saveAsText lib (MeshShape mesh) out =
     (let out1 = endl (put_string out Mesh_STRING_NAME);
          out2 = endl (put_nat lib (put_string (put_nat lib out1 (vertex_count mesh)) '' '')
                   (triangle_count mesh));
          out3 = fold (\<lambda>i o'. let i3 = i * 3
                       in put_real3 lib o' (array_read (vertices mesh) i3)
                            (array_read (vertices mesh) (i3 + 1))
                            (array_read (vertices mesh) (i3 + 2)))
                   [0..<vertex_count mesh] out2;
          out4 = fold (\<lambda>i o'. let i3 = i * 3
                       in put_nat3 lib o' (array_read (triangles mesh) i3)
                            (array_read (triangles mesh) (i3 + 1))
                            (array_read (triangles mesh) (i3 + 2)))
                   [0..<triangle_count mesh] out3
      in ([], out4))"
| "saveAsText lib shape out = (logError ''Unable to save shape of type %d'', out)"

subsection \<open>An example of the number conversions\<close>

text \<open>
  Plain decimal notation: an unsigned integer is its digits; a number is written
  rounded to \<open>precision\<close> significant digits, trailing zeros and a trailing point
  dropped, which is what the C++ library writes for the doubles from \<open>1\<close> on whose
  rounded value is less than \<open>10 ^ precision\<close> (ties of the rounding aside; the
  library writes the other doubles with an exponent or with more digits); NaN is
  written \<open>nan\<close>; the reader takes a sign, digits and an optional fraction.
  Uninitialised doubles hold \<open>- 1\<close>, uninitialised integers \<open>0\<close>. These serve the
  examples only.
\<close>

definition isdigit :: "char \<Rightarrow> bool" where
  "isdigit c \<longleftrightarrow> c \<in> set ''0123456789''"

definition decimal_value :: "string \<Rightarrow> nat" where
  "decimal_value ds = foldl (\<lambda>n c. 10 * n + (of_char c - 48)) 0 ds"

definition digit_char :: "nat \<Rightarrow> char" where
  "digit_char d = ''0123456789'' ! d"

fun decimal_digits :: "nat \<Rightarrow> string" where
  "decimal_digits n =
     (if n < 10 then [digit_char n]
      else decimal_digits (n div 10) @ [digit_char (n mod 10)])"

declare decimal_digits.simps [simp del]

definition example_get_unsigned :: "string \<Rightarrow> nat \<Rightarrow> nat \<times> bool \<times> string" where
  "example_get_unsigned cs v =
     (let ds = takeWhile isdigit cs
      in if ds = [] then (v, False, cs) else (decimal_value ds, True, dropWhile isdigit cs))"

definition example_get_double :: "string \<Rightarrow> double \<Rightarrow> double \<times> bool \<times> string" where
  "example_get_double cs v =
     (let neg = (cs \<noteq> [] \<and> hd cs = CHR ''-'');
          body = (if neg then tl cs else cs);
          sgn = (if neg then - 1 else 1);
          ds = takeWhile isdigit body;
          r = dropWhile isdigit body
      in if ds = [] then (v, False, cs)
         else if r \<noteq> [] \<and> hd r = CHR ''.'' then
           (let fs = takeWhile isdigit (tl r)
            in (Num (sgn * (real (decimal_value ds) + real (decimal_value fs) / 10 ^ length fs)),
                True, dropWhile isdigit (tl r)))
         else (Num (sgn * real (decimal_value ds)), True, r))"

definition example_env :: text_env where
  "example_env =
     \<lparr>num_get_double = example_get_double, num_get_unsigned = example_get_unsigned,
      uninit_double = - 1, uninit_unsigned = 0\<rparr>"

definition strip_zeros :: "string \<Rightarrow> string" where
  "strip_zeros s = rev (dropWhile (\<lambda>c. c = CHR ''0'') (rev s))"

definition example_put_number :: "nat \<Rightarrow> real \<Rightarrow> string" where
  "example_put_number p x =
     (let a = \<bar>x\<bar>;
          whole = nat \<lfloor>a\<rfloor>;
          k = (if whole = 0 then 0 else length (decimal_digits whole));
          d = p - k;
          m = nat \<lfloor>a * 10 ^ d + 1 / 2\<rfloor>;
          fs = decimal_digits (m mod 10 ^ d);
          fd = strip_zeros (replicate (d - length fs) (CHR ''0'') @ fs)
      in (if x < 0 then ''-'' else []) @ decimal_digits (m div 10 ^ d) @
         (if fd = [] then [] else CHR ''.'' # fd))"

definition example_put_double :: "nat \<Rightarrow> double \<Rightarrow> string" where
  "example_put_double p x = (case x of Num r \<Rightarrow> example_put_number p r | NaN \<Rightarrow> ''nan'')"

definition example_put :: num_put where
  "example_put = \<lparr>put_double = example_put_double, put_unsigned = decimal_digits\<rparr>"

definition text_stream :: "string \<Rightarrow> istream" where
  "text_stream cs = \<lparr>chars = cs, eofbit = False, failbit = False\<rparr>"

text \<open>A stream as it is constructed, and the text a shape is saved as on it.\<close>

definition new_ostream :: ostream where
  "new_ostream = \<lparr>written = [], precision = 6\<rparr>"

definition example_saved_text :: "Shape \<Rightarrow> string" where
  "example_saved_text shape = written (snd (saveAsText example_put shape new_ostream))"

subsection \<open>Notions of the statements and proofs\<close>

text \<open>
  The points the loop of the soup-based construction reads; a point none of whose
  coordinates is NaN; the order in which points appear for the first time in a
  sequence; the position of a point in a sequence; the vertex of a mesh that an
  entry of its index array refers to.
\<close>

definition processed :: "Vector3d list \<Rightarrow> Vector3d list" where
  "processed source = take (3 * (length source div 3)) source"

definition no_nan :: "Vector3d \<Rightarrow> bool" where
  "no_nan p \<longleftrightarrow> (case p of (a, b, c) \<Rightarrow> a \<noteq> NaN \<and> b \<noteq> NaN \<and> c \<noteq> NaN)"

definition first_seen :: "'a list \<Rightarrow> 'a list" where
  "first_seen ps = rev (remdups (rev ps))"

fun first_index :: "'a list \<Rightarrow> 'a \<Rightarrow> nat" where
  "first_index [] p = 0"
| "first_index (u # us) p = (if u = p then 0 else Suc (first_index us p))"

definition corner_vertex :: "nat \<Rightarrow> Mesh \<Rightarrow> Vector3d" where
  "corner_vertex j m = mesh_vertex m (triangles m ! j)"

text \<open>
  The elements of the set of the soup-based construction, its loop invariant on
  points without NaN, the mesh it makes of the points it reads, and that mesh on
  points without NaN.
\<close>

definition coords :: "LocalVertexType \<Rightarrow> Vector3d" where
  "coords v = (vx v, vy v, vz v)"

definition enum_vertices :: "Vector3d list \<Rightarrow> LocalVertexType list" where
  "enum_vertices us = map (\<lambda>i. (LocalVertex (us ! i))\<lparr>index := i\<rparr>) [0..<length us]"

definition soup_inv :: "Vector3d list \<Rightarrow> LocalVertexType list \<times> nat list \<Rightarrow> bool" where
  "soup_inv ps st \<longleftrightarrow>
     sorted_wrt ltLocalVertexValue (fst st) \<and>
     mset (fst st) = mset (enum_vertices (first_seen ps)) \<and>
     snd st = map (first_index (first_seen ps)) ps"

definition soup_built :: "Vector3d list \<Rightarrow> Mesh" where
  "soup_built ps =
     (let st = fold add_vertex ps ([], []);
          vt = sort_by_index (fst st)
      in computeNormals
           \<lparr>vertex_count = length vt, triangle_count = length ps div 3,
            vertices = flatten_local vt, triangles = snd st, normals = []\<rparr>)"

definition soup_mesh :: "Vector3d list \<Rightarrow> Mesh" where
  "soup_mesh ps =
     computeNormals
       \<lparr>vertex_count = length (first_seen ps), triangle_count = length ps div 3,
        vertices = flatten3 (first_seen ps),
        triangles = map (first_index (first_seen ps)) ps, normals = []\<rparr>"


text \<open>
  The first token of the input of a stream and the characters that follow it.
\<close>

definition type_token :: "istream \<Rightarrow> string" where
  "type_token s = takeWhile (\<lambda>c. \<not> isspace c) (dropWhile isspace (chars s))"

definition after_type_token :: "istream \<Rightarrow> string" where
  "after_type_token s = dropWhile (\<lambda>c. \<not> isspace c) (dropWhile isspace (chars s))"

section \<open>Properties\<close>

subsection \<open>Doubles\<close>

lemma less_Num [simp]: "(Num a < Num b) = (a < b)"
  by (simp add: less_double_def)

lemma less_NaN [simp]: "\<not> NaN < y" "\<not> x < NaN"
  by (simp add: less_double_def, cases x) (simp_all add: less_double_def)

lemma less_double_irrefl: "\<not> x < x" for x :: double
  by (cases x) simp_all

lemma numeral_double: "numeral k = Num (numeral k)"
proof (induction k)
  case One
  show ?case by (simp add: one_double_def)
next
  case (Bit0 k)
  have "numeral (num.Bit0 k) = (numeral k + numeral k :: double)" by (rule numeral_Bit0)
  also have "\<dots> = Num (numeral k) + Num (numeral k)" by (simp only: Bit0)
  also have "\<dots> = Num (numeral k + numeral k)" by (simp add: plus_double_def)
  also have "\<dots> = Num (numeral (num.Bit0 k))" by (simp only: numeral_Bit0)
  finally show ?case .
next
  case (Bit1 k)
  have "numeral (num.Bit1 k) = (numeral k + numeral k + 1 :: double)" by (rule numeral_Bit1)
  also have "\<dots> = Num (numeral k) + Num (numeral k) + Num 1" by (simp only: Bit1 one_double_def)
  also have "\<dots> = Num (numeral k + numeral k + 1)" by (simp add: plus_double_def)
  also have "\<dots> = Num (numeral (num.Bit1 k))" by (simp only: numeral_Bit1)
  finally show ?case .
qed

lemma power_Num: "Num a ^ n = Num (a ^ n)"
  by (induction n) (simp_all add: one_double_def times_double_def)

lemmas double_arith = zero_double_def one_double_def numeral_double power_Num plus_double_def
  minus_double_def uminus_double_def times_double_def divide_double_def

subsection \<open>Soup-based construction: deduplication and indices\<close>

lemma no_nan_coords:
  "no_nan (coords a) \<Longrightarrow> \<exists>x y z. vx a = Num x \<and> vy a = Num y \<and> vz a = Num z"
  by (cases "vx a"; cases "vy a"; cases "vz a") (simp_all add: no_nan_def coords_def)

lemma lt_irrefl: "\<not> ltLocalVertexValue a a"
  by (simp add: ltLocalVertexValue_def less_double_irrefl)

lemma lt_cong: "coords a = coords a' \<Longrightarrow> coords b = coords b' \<Longrightarrow>
  ltLocalVertexValue a b = ltLocalVertexValue a' b'"
  by (simp add: ltLocalVertexValue_def coords_def)

lemma lt_coords: "ltLocalVertexValue a b \<Longrightarrow> coords a \<noteq> coords b"
  using lt_cong[of a a b a] lt_irrefl[of a] by auto

lemma lt_trans:
  assumes "no_nan (coords a)" "no_nan (coords b)" "no_nan (coords c)"
    and "ltLocalVertexValue a b" "ltLocalVertexValue b c"
  shows "ltLocalVertexValue a c"
proof -
  from no_nan_coords[OF assms(1)] obtain ax ay az
    where a: "vx a = Num ax" "vy a = Num ay" "vz a = Num az" by blast
  from no_nan_coords[OF assms(2)] obtain bx "by" bz
    where b: "vx b = Num bx" "vy b = Num by" "vz b = Num bz" by blast
  from no_nan_coords[OF assms(3)] obtain cx cy cz
    where c: "vx c = Num cx" "vy c = Num cy" "vz c = Num cz" by blast
  from assms(4,5) show ?thesis
    by (auto simp: ltLocalVertexValue_def a b c split: if_splits)
qed

lemma lt_total:
  assumes "no_nan (coords a)" "no_nan (coords b)"
    and "\<not> ltLocalVertexValue a b" "\<not> ltLocalVertexValue b a"
  shows "coords a = coords b"
proof -
  from no_nan_coords[OF assms(1)] obtain ax ay az
    where a: "vx a = Num ax" "vy a = Num ay" "vz a = Num az" by blast
  from no_nan_coords[OF assms(2)] obtain bx "by" bz
    where b: "vx b = Num bx" "vy b = Num by" "vz b = Num bz" by blast
  from assms(3,4) show ?thesis
    by (auto simp: ltLocalVertexValue_def coords_def a b split: if_splits)
qed

lemma set_find_None:
  "sorted_wrt ltLocalVertexValue vs \<Longrightarrow> \<forall>e \<in> set vs. no_nan (coords e) \<Longrightarrow>
   no_nan (coords k) \<Longrightarrow>
   (set_find vs k = None) = (coords k \<notin> coords ` set vs)"
proof (induction vs)
  case Nil
  then show ?case by simp
next
  case (Cons e es)
  from Cons.prems have ne: "no_nan (coords e)" and nes: "\<forall>x \<in> set es. no_nan (coords x)"
    and nk: "no_nan (coords k)" and srt: "sorted_wrt ltLocalVertexValue es"
    and le: "\<forall>x \<in> set es. ltLocalVertexValue e x"
    by simp_all
  have IH: "(set_find es k = None) = (coords k \<notin> coords ` set es)"
    using srt nes nk by (rule Cons.IH)
  show ?case
  proof (cases "ltLocalVertexValue e k")
    case True
    with IH show ?thesis using lt_coords[of e k] by auto
  next
    case False
    show ?thesis
    proof (cases "ltLocalVertexValue k e")
      case True
      have "coords k \<noteq> coords x" if "x \<in> set (e # es)" for x
      proof -
        have "ltLocalVertexValue k x"
        proof (cases "x = e")
          case True
          with \<open>ltLocalVertexValue k e\<close> show ?thesis by simp
        next
          case False
          with that have xin: "x \<in> set es" by simp
          with le have "ltLocalVertexValue e x" by simp
          with nk ne nes xin \<open>ltLocalVertexValue k e\<close> show ?thesis
            using lt_trans[of k e x] by simp
        qed
        then show ?thesis by (rule lt_coords)
      qed
      with True False show ?thesis by auto
    next
      case nlt: False
      from ne nk False nlt have "coords e = coords k" by (rule lt_total)
      with False nlt show ?thesis by force
    qed
  qed
qed

lemma set_find_Some:
  "\<forall>e \<in> set vs. no_nan (coords e) \<Longrightarrow> no_nan (coords k) \<Longrightarrow>
   set_find vs k = Some q \<Longrightarrow> q \<in> set vs \<and> coords q = coords k"
proof (induction vs)
  case Nil
  then show ?case by simp
next
  case (Cons e es)
  show ?case
  proof (cases "ltLocalVertexValue e k")
    case True
    with Cons show ?thesis by simp
  next
    case False
    with Cons.prems(3) have nlt: "\<not> ltLocalVertexValue k e" and q: "q = e"
      by (simp_all split: if_splits)
    from Cons.prems(1,2) have "no_nan (coords e)" "no_nan (coords k)" by simp_all
    from this False nlt have "coords e = coords k" by (rule lt_total)
    with q show ?thesis by simp
  qed
qed

lemma set_insert_new:
  "sorted_wrt ltLocalVertexValue vs \<Longrightarrow> \<forall>e \<in> set vs. no_nan (coords e) \<Longrightarrow>
   no_nan (coords v) \<Longrightarrow> coords v \<notin> coords ` set vs \<Longrightarrow>
   sorted_wrt ltLocalVertexValue (set_insert v vs) \<and> mset (set_insert v vs) = add_mset v (mset vs)"
proof (induction vs)
  case Nil
  then show ?case by simp
next
  case (Cons e es)
  from Cons.prems have ne: "coords v \<noteq> coords e" by auto
  from Cons.prems have nn: "no_nan (coords e)" "no_nan (coords v)"
    "\<forall>x \<in> set es. no_nan (coords x)" by simp_all
  show ?case
  proof (cases "ltLocalVertexValue e v")
    case True
    from Cons have IH: "sorted_wrt ltLocalVertexValue (set_insert v es)"
      "mset (set_insert v es) = add_mset v (mset es)" by auto
    have "set (set_insert v es) = insert v (set es)"
      using IH(2) by (metis set_mset_add_mset_insert set_mset_mset)
    with True IH Cons.prems show ?thesis by auto
  next
    case False
    have "ltLocalVertexValue v e"
    proof (rule ccontr)
      assume "\<not> ltLocalVertexValue v e"
      with nn(1,2) False have "coords e = coords v" by (rule lt_total)
      with ne show False by simp
    qed
    moreover have "ltLocalVertexValue v x" if "x \<in> set es" for x
    proof -
      from that Cons.prems(1) have "ltLocalVertexValue e x" by simp
      with nn that \<open>ltLocalVertexValue v e\<close> show ?thesis using lt_trans[of v e x] by simp
    qed
    ultimately show ?thesis using False Cons.prems(1) by simp
  qed
qed

lemma first_seen_snoc:
  "first_seen (ps @ [p]) = (if p \<in> set ps then first_seen ps else first_seen ps @ [p])"
  by (simp add: first_seen_def)

lemma first_seen_Nil: "first_seen [] = []"
  by (simp add: first_seen_def)

lemma set_first_seen: "set (first_seen ps) = set ps"
  by (simp add: first_seen_def)

lemma distinct_first_seen: "distinct (first_seen ps)"
  by (simp add: first_seen_def)

lemma length_first_seen: "length (first_seen ps) = card (set ps)"
  using distinct_card[OF distinct_first_seen, of ps] by (simp add: set_first_seen)

lemma first_index_less: "p \<in> set us \<Longrightarrow> first_index us p < length us"
  by (induction us) auto

lemma nth_first_index: "p \<in> set us \<Longrightarrow> us ! first_index us p = p"
  by (induction us) auto

lemma first_index_append: "p \<in> set us \<Longrightarrow> first_index (us @ ws) p = first_index us p"
  by (induction us) auto

lemma first_index_fresh: "p \<notin> set us \<Longrightarrow> first_index (us @ [p]) p = length us"
  by (induction us) auto

lemma first_index_nth: "distinct us \<Longrightarrow> i < length us \<Longrightarrow> first_index us (us ! i) = i"
proof (induction us arbitrary: i)
  case Nil
  then show ?case by simp
next
  case (Cons u us)
  then show ?case by (cases i) auto
qed

lemma enum_vertices_snoc:
  "enum_vertices (us @ [p]) = enum_vertices us @ [(LocalVertex p)\<lparr>index := length us\<rparr>]"
  by (simp add: enum_vertices_def nth_append)

lemma length_enum_vertices: "length (enum_vertices us) = length us"
  by (simp add: enum_vertices_def)

lemma coords_LocalVertex: "coords ((LocalVertex p)\<lparr>index := i\<rparr>) = p" "coords (LocalVertex p) = p"
  by (simp_all add: coords_def LocalVertex_def split: prod.splits)

lemma coords_enum_vertices: "map coords (enum_vertices us) = us"
  by (simp add: enum_vertices_def comp_def coords_LocalVertex map_nth)

lemma index_enum_vertices: "map index (enum_vertices us) = [0..<length us]"
  by (simp add: enum_vertices_def comp_def)

lemma enum_vertices_mem:
  "q \<in> set (enum_vertices us) \<Longrightarrow> index q < length us \<and> us ! index q = coords q"
  by (auto simp: enum_vertices_def coords_LocalVertex)

lemma soup_inv_init: "soup_inv [] ([], [])"
  by (simp add: soup_inv_def first_seen_Nil enum_vertices_def)

lemma soup_inv_step:
  assumes "soup_inv ps st" and nps: "\<forall>q \<in> set ps. no_nan q" and np: "no_nan p"
  shows "soup_inv (ps @ [p]) (add_vertex p st)"
proof -
  obtain vs ts where st: "st = (vs, ts)" by (cases st)
  let ?U = "first_seen ps"
  from assms st have srt: "sorted_wrt ltLocalVertexValue vs"
    and ms: "mset vs = mset (enum_vertices ?U)"
    and ts: "ts = map (first_index ?U) ps"
    by (simp_all add: soup_inv_def)
  from ms have setvs: "set vs = set (enum_vertices ?U)" by (rule mset_eq_setD)
  from ms have len: "length vs = length ?U"
    using mset_eq_length[OF ms] by (simp add: length_enum_vertices)
  have cs: "coords ` set vs = set ps"
    using setvs coords_enum_vertices[of ?U] set_first_seen[of ps]
    by (metis set_map)
  have old: "map (first_index (?U @ ws)) ps = map (first_index ?U) ps" for ws
    by (rule map_cong) (simp_all add: first_index_append set_first_seen)
  have nvs: "\<forall>e \<in> set vs. no_nan (coords e)"
  proof
    fix e assume "e \<in> set vs"
    then have "coords e \<in> coords ` set vs" by (rule imageI)
    with cs nps show "no_nan (coords e)" by simp
  qed
  have nk: "no_nan (coords (LocalVertex p))" using np by (simp add: coords_LocalVertex)
  show ?thesis
  proof (cases "p \<in> set ps")
    case True
    then have "set_find vs (LocalVertex p) \<noteq> None"
      using set_find_None[OF srt nvs nk] cs by (simp add: coords_LocalVertex)
    then obtain q where q: "set_find vs (LocalVertex p) = Some q" by auto
    from set_find_Some[OF nvs nk q] have qin: "q \<in> set vs" and qc: "coords q = p"
      by (simp_all add: coords_LocalVertex)
    from qin setvs enum_vertices_mem[of q ?U] qc
    have qi: "index q < length ?U" "?U ! index q = p" by auto
    have "first_index ?U p = index q"
      using first_index_nth[OF distinct_first_seen qi(1)] qi(2) by simp
    with True q st srt ms ts show ?thesis
      by (simp add: soup_inv_def first_seen_snoc)
  next
    case False
    then have fnd: "set_find vs (LocalVertex p) = None"
      using set_find_None[OF srt nvs nk] cs by (simp add: coords_LocalVertex)
    let ?v = "(LocalVertex p)\<lparr>index := length vs\<rparr>"
    have nv: "no_nan (coords ?v)" using np by (simp add: coords_LocalVertex)
    have "coords ?v \<notin> coords ` set vs" using False cs by (simp add: coords_LocalVertex)
    from set_insert_new[OF srt nvs nv this]
    have ins: "sorted_wrt ltLocalVertexValue (set_insert ?v vs)"
      "mset (set_insert ?v vs) = add_mset ?v (mset vs)" by auto
    have fi: "first_index (?U @ [p]) p = length vs"
      using first_index_fresh[of p ?U] False len by (simp add: set_first_seen)
    from False fnd st ins ms ts len fi show ?thesis
      by (simp add: soup_inv_def first_seen_snoc enum_vertices_snoc old)
  qed
qed

lemma soup_inv_fold:
  "soup_inv ps st \<Longrightarrow> \<forall>q \<in> set (ps @ qs). no_nan q \<Longrightarrow>
   soup_inv (ps @ qs) (fold add_vertex qs st)"
proof (induction qs arbitrary: ps st)
  case Nil
  then show ?case by simp
next
  case (Cons q qs)
  from Cons.prems(2) have nps: "\<forall>x \<in> set ps. no_nan x" and nq: "no_nan q"
    and rest: "\<forall>x \<in> set ((ps @ [q]) @ qs). no_nan x" by simp_all
  from Cons.prems(1) nps nq have "soup_inv (ps @ [q]) (add_vertex q st)" by (rule soup_inv_step)
  from Cons.IH[OF this rest] show ?case by simp
qed

lemma length_snd_add_vertex: "length (snd (add_vertex p st)) = Suc (length (snd st))"
  by (cases st) (simp add: Let_def split: option.splits)

lemma length_snd_fold_add_vertex:
  "length (snd (fold add_vertex ps st)) = length (snd st) + length ps"
  by (induction ps arbitrary: st) (simp_all add: length_snd_add_vertex del: add_vertex.simps)

lemma soup_loop_fold:
  "3 * n \<le> length source \<Longrightarrow>
   fold (soup_triangle source) [0..<n] st = fold add_vertex (take (3 * n) source) st"
proof (induction n)
  case 0
  then show ?case by simp
next
  case (Suc n)
  have t: "take (3 * Suc n) source =
           take (3 * n) source @ [source ! (3 * n), source ! (3 * n + 1), source ! (3 * n + 2)]"
  proof -
    have "3 * Suc n = Suc (Suc (Suc (3 * n)))" by simp
    then have "take (3 * Suc n) source = take (Suc (Suc (Suc (3 * n)))) source" by (rule arg_cong)
    also have "\<dots> = take (3 * n) source @ [source ! (3 * n), source ! (3 * n + 1), source ! (3 * n + 2)]"
      using Suc.prems by (simp add: take_Suc_conv_app_nth)
    finally show ?thesis .
  qed
  have "fold (soup_triangle source) [0..<Suc n] st =
        soup_triangle source n (fold (soup_triangle source) [0..<n] st)" by simp
  also have "\<dots> = soup_triangle source n (fold add_vertex (take (3 * n) source) st)"
    using Suc by simp
  also have "\<dots> = fold add_vertex (take (3 * Suc n) source) st"
    unfolding t soup_triangle_def Let_def by (simp add: mult.commute del: add_vertex.simps)
  finally show ?case .
qed

lemma filter_key_single:
  "distinct (map f xs) \<Longrightarrow> k \<in> set xs \<Longrightarrow> filter (\<lambda>x. f k = f x) xs = [k]"
proof (induction xs)
  case Nil
  then show ?case by simp
next
  case (Cons a as)
  show ?case
  proof (cases "k = a")
    case True
    have "filter (\<lambda>x. f a = f x) as = []"
      using Cons.prems(1) by (auto simp: filter_empty_conv)
    with True show ?thesis by simp
  next
    case False
    with Cons.prems have kin: "k \<in> set as" by simp
    then have "f k \<in> f ` set as" by (rule imageI)
    with Cons.prems(1) have "f k \<noteq> f a" by auto
    with Cons kin show ?thesis by simp
  qed
qed

lemma sort_by_index_enum:
  assumes "mset vs = mset (enum_vertices us)"
  shows "sort_by_index vs = enum_vertices us"
  unfolding sort_by_index_def
proof (rule properties_for_sort_key)
  show "mset (enum_vertices us) = mset vs" using assms by simp
  show "sorted (map index (enum_vertices us))" by (simp add: index_enum_vertices)
  fix k assume k: "k \<in> set (enum_vertices us)"
  have d: "distinct (map index (enum_vertices us))" by (simp add: index_enum_vertices)
  have e: "filter (\<lambda>x. index k = index x) (enum_vertices us) = [k]"
    using d k by (rule filter_key_single)
  have "mset (filter (\<lambda>x. index k = index x) vs) = mset (filter (\<lambda>x. index k = index x) (enum_vertices us))"
    by (simp add: assms)
  then have "mset (filter (\<lambda>x. index k = index x) vs) = {#k#}" by (simp add: e)
  then have "filter (\<lambda>x. index k = index x) vs = [k]" by (simp only: mset_single_iff)
  with e show "filter (\<lambda>x. index k = index x) (enum_vertices us) = filter (\<lambda>x. index k = index x) vs"
    by simp
qed

lemma flatten_local_enum: "flatten_local (enum_vertices us) = flatten3 us"
  unfolding flatten_local_def flatten3_def length_enum_vertices
  by (rule arg_cong[where f = concat], rule map_cong)
     (auto simp: enum_vertices_def LocalVertex_def split: prod.splits)

lemma length_flatten3: "length (flatten3 us) = 3 * length us"
proof -
  have "length (concat (map (\<lambda>i. case us ! i of (a, b, c) \<Rightarrow> [a, b, c]) [0..<n])) = 3 * n" for n
    by (induction n) (auto split: prod.splits)
  then show ?thesis by (simp add: flatten3_def)
qed

lemma flatten3_nth:
  assumes "i < length us"
  shows "flatten3 us ! (3 * i) = fst (us ! i)"
    and "flatten3 us ! (3 * i + 1) = fst (snd (us ! i))"
    and "flatten3 us ! (3 * i + 2) = snd (snd (us ! i))"
proof -
  let ?g = "\<lambda>i. case us ! i of (a, b, c) \<Rightarrow> [a, b, c]"
  have len: "length (concat (map ?g [0..<n])) = 3 * n" for n
    by (induction n) (auto split: prod.splits)
  have "i < n \<Longrightarrow> concat (map ?g [0..<n]) ! (3 * i) = fst (us ! i) \<and>
        concat (map ?g [0..<n]) ! (3 * i + 1) = fst (snd (us ! i)) \<and>
        concat (map ?g [0..<n]) ! (3 * i + 2) = snd (snd (us ! i))" for n
  proof (induction n)
    case 0
    then show ?case by simp
  next
    case (Suc n)
    show ?case
    proof (cases "i < n")
      case True
      with Suc.IH show ?thesis by (simp add: nth_append len)
    next
      case False
      with Suc.prems have "i = n" by simp
      then show ?thesis by (simp add: nth_append len split: prod.splits)
    qed
  qed
  from this[OF assms] show "flatten3 us ! (3 * i) = fst (us ! i)"
    and "flatten3 us ! (3 * i + 1) = fst (snd (us ! i))"
    and "flatten3 us ! (3 * i + 2) = snd (snd (us ! i))"
    by (simp_all add: flatten3_def)
qed

lemma length_processed: "length (processed source) = 3 * (length source div 3)"
  by (simp add: processed_def)

lemma processed_idem: "processed (processed source) = processed source"
  by (simp add: processed_def)

lemma triangle_normal_cong:
  "vertices m = vertices m' \<Longrightarrow> triangles m = triangles m' \<Longrightarrow>
   triangle_normal m = triangle_normal m'"
  by (rule ext) (simp add: triangle_normal_def mesh_vertex_def)

lemma computeNormals_fields:
  "vertex_count (computeNormals m) = vertex_count m"
  "triangle_count (computeNormals m) = triangle_count m"
  "vertices (computeNormals m) = vertices m"
  "triangles (computeNormals m) = triangles m"
  "normals (computeNormals m) = concat (map (triangle_normal m) [0..<triangle_count m])"
  by (simp_all add: computeNormals_def)

lemma length_triangle_normal: "length (triangle_normal m i) = 3"
  by (simp add: triangle_normal_def normalize_def Let_def split: prod.splits)

lemma length_normals_computeNormals:
  "length (normals (computeNormals m)) = 3 * triangle_count m"
proof -
  have "length (concat (map (triangle_normal m) [0..<n])) = 3 * n" for n
    by (induction n) (simp_all add: length_triangle_normal)
  then show ?thesis by (simp add: computeNormals_fields)
qed

lemma soup_loop_processed:
  "fold (soup_triangle source) [0..<length source div 3] st = fold add_vertex (processed source) st"
  unfolding processed_def by (rule soup_loop_fold) simp

lemma soup_copy_fits:
  "snd (std_copy (snd (fold (soup_triangle source) [0..<length source div 3] ([], [])))
         (3 * (length (snd (fold (soup_triangle source) [0..<length source div 3] ([], []))) div 3)))
     = []"
  by (simp add: std_copy_def soup_loop_processed length_snd_fold_add_vertex length_processed)

lemma soup_pair:
  assumes "3 \<le> length source"
  shows "createMeshFromVertices_source source =
     (if length source mod 3 \<noteq> 0 then logError not_divisible_msg else [],
      Some (soup_built (processed source)))"
proof -
  let ?st = "fold add_vertex (processed source) ([], [])"
  have lts: "length (snd ?st) = 3 * (length source div 3)"
    by (simp add: length_snd_fold_add_vertex length_processed)
  from assms show ?thesis
    by (simp add: createMeshFromVertices_source_def Let_def soup_loop_processed lts std_copy_def
        soup_built_def length_processed)
qed

lemma soup_built_no_nan:
  assumes "\<forall>p \<in> set ps. no_nan p"
  shows "soup_built ps = soup_mesh ps"
proof -
  let ?st = "fold add_vertex ps ([], [])"
  from assms have "\<forall>q \<in> set ([] @ ps). no_nan q" by simp
  with soup_inv_init have "soup_inv ([] @ ps) ?st" by (rule soup_inv_fold)
  then have ms: "mset (fst ?st) = mset (enum_vertices (first_seen ps))"
    and ts: "snd ?st = map (first_index (first_seen ps)) ps"
    by (simp_all add: soup_inv_def)
  have srt: "sort_by_index (fst ?st) = enum_vertices (first_seen ps)"
    using ms by (rule sort_by_index_enum)
  show ?thesis
    by (simp add: soup_built_def soup_mesh_def Let_def srt ts length_enum_vertices
        flatten_local_enum)
qed

lemma soup_result:
  assumes "3 \<le> length source" "\<forall>p \<in> set (processed source). no_nan p"
  shows "snd (createMeshFromVertices_source source) = Some (soup_mesh (processed source))"
  using soup_pair[OF assms(1)] soup_built_no_nan[OF assms(2)] by simp

lemma soup_log:
  "fst (createMeshFromVertices_source source) =
     (if 3 \<le> length source \<and> length source mod 3 \<noteq> 0 then logError not_divisible_msg else [])"
  by (simp add: createMeshFromVertices_source_def Let_def)

lemma mesh_vertex_flatten:
  assumes "vertices m = flatten3 us" "i < length us"
  shows "mesh_vertex m i = us ! i"
proof -
  from assms(2) have "3 * i < length (flatten3 us)" "3 * i + 1 < length (flatten3 us)"
    "3 * i + 2 < length (flatten3 us)"
    by (simp_all add: length_flatten3)
  then have "mesh_vertex m i = (flatten3 us ! (3 * i), flatten3 us ! (3 * i + 1),
      flatten3 us ! (3 * i + 2))"
    by (simp add: mesh_vertex_def array_read_def assms(1))
  also have "\<dots> = (fst (us ! i), fst (snd (us ! i)), snd (snd (us ! i)))"
    by (simp only: flatten3_nth[OF assms(2)])
  finally show ?thesis by simp
qed

lemma mesh_vertices_flatten:
  assumes "vertices m = flatten3 us"
  shows "map (mesh_vertex m) [0..<length us] = us"
proof -
  have "map (mesh_vertex m) [0..<length us] = map ((!) us) [0..<length us]"
    by (rule map_cong) (simp_all add: mesh_vertex_flatten[OF assms])
  then show ?thesis by (simp add: map_nth)
qed

lemma soup_mesh_fields:
  "vertex_count (soup_mesh ps) = card (set ps)"
  "triangle_count (soup_mesh ps) = length ps div 3"
  "vertices (soup_mesh ps) = flatten3 (first_seen ps)"
  "triangles (soup_mesh ps) = map (first_index (first_seen ps)) ps"
  by (simp_all add: soup_mesh_def computeNormals_fields length_first_seen)

lemma soup_mesh_vertices:
  "map (mesh_vertex (soup_mesh ps)) [0..<vertex_count (soup_mesh ps)] = first_seen ps"
  using mesh_vertices_flatten[OF soup_mesh_fields(3), of ps]
  by (simp add: soup_mesh_fields(1) length_first_seen)

lemma remdups_append_filter:
  "remdups (xs @ ys) = remdups (filter (\<lambda>x. x \<notin> set ys) xs) @ remdups ys"
  by (induction xs) auto

lemma first_seen_Cons_hd: "\<exists>ws. first_seen (p # zs) = p # ws"
  by (simp add: first_seen_def remdups_append_filter[of "rev zs" "[p]"])

lemma first_seen_append:
  "first_seen (xs @ ys) = first_seen xs @ first_seen (filter (\<lambda>y. y \<notin> set xs) ys)"
  by (simp add: first_seen_def remdups_append_filter[of "rev ys" "rev xs"] rev_filter)

lemma first_index_first_occurrence:
  assumes "j < length ps" "ps ! j \<notin> set (take j ps)"
  shows "first_index (first_seen ps) (ps ! j) = card (set (take j ps))"
proof -
  let ?p = "ps ! j"
  have "ps = take j ps @ ?p # drop (Suc j) ps"
    using assms(1) by (rule id_take_nth_drop)
  then have "first_seen ps = first_seen (take j ps @ ?p # drop (Suc j) ps)" by simp
  also have "\<dots> = first_seen (take j ps) @
      first_seen (?p # filter (\<lambda>y. y \<notin> set (take j ps)) (drop (Suc j) ps))"
    using assms(2) by (simp add: first_seen_append)
  finally obtain ws where fs: "first_seen ps = first_seen (take j ps) @ ?p # ws"
    using first_seen_Cons_hd by metis
  have "first_index (us @ ?p # ws) ?p = length us" if "?p \<notin> set us" for us
    using that by (induction us) auto
  from this[of "first_seen (take j ps)"] assms(2) fs show ?thesis
    by (simp add: set_first_seen length_first_seen)
qed

lemma first_index_in_range:
  "\<forall>t \<in> set (map (first_index (first_seen ps)) ps). t < card (set ps)"
  using first_index_less[of _ "first_seen ps"]
  by (auto simp: set_first_seen length_first_seen)

text \<open>
  Claim C1 as stated fails for a stream with a NaN coordinate: of the two distinct
  points \<open>(NaN, 0, 0)\<close> and \<open>(1, 0, 0)\<close> the mesh has the first one only, the search
  of the set having taken the second for the first.
\<close>

theorem soup_dedup_count_and_bounds_counterexample:
  "map_option vertex_count
     (snd (createMeshFromVertices_source [(NaN, 0, 0), (NaN, 0, 0), (1, 0, 0)])) = Some 1 \<and>
   map_option vertices
     (snd (createMeshFromVertices_source [(NaN, 0, 0), (NaN, 0, 0), (1, 0, 0)])) =
     Some [NaN, 0, 0] \<and>
   card (set (processed [(NaN, 0, 0), (NaN, 0, 0), (1, 0, 0) :: Vector3d])) = 2"
proof -
  let ?src = "[(NaN, 0, 0), (NaN, 0, 0), (1, 0, 0)] :: Vector3d list"
  have "processed ?src = ?src" by (simp add: processed_def)
  then have "card (set (processed ?src)) = length (remdups ?src)" by (simp only: card_set)
  also have "\<dots> = 2" by (simp add: double_arith)
  finally have c: "card (set (processed ?src)) = 2" .
  have r: "snd (createMeshFromVertices_source ?src) = Some (soup_built ?src)"
    using soup_pair[of ?src] by (simp add: processed_def)
  have st: "fold add_vertex ?src ([], []) = ([\<lparr>vx = NaN, vy = 0, vz = 0, index = 0\<rparr>], [0, 0, 0])"
    by (simp add: LocalVertex_def ltLocalVertexValue_def less_double_irrefl)
  have "vertex_count (soup_built ?src) = 1" "vertices (soup_built ?src) = [NaN, 0, 0]"
    unfolding soup_built_def st Let_def
    by (simp_all add: computeNormals_fields sort_by_index_def flatten_local_def)
  with r c show ?thesis by simp
qed

text \<open>
  Claim C1, amended. For every point stream of at least 3 points, none of the
  points processed having a NaN coordinate, the soup-based
  \<^verbatim>\<open>createMeshFromVertices\<close> returns a mesh whose number of vertices is the number of
  distinct coordinate triples among the points processed (\<open>3 * vertex_count\<close>
  coordinates are stored), every processed triple occurring exactly once among the
  vertices, and every entry of the triangle-index array is below \<open>vertex_count\<close>.
\<close>

theorem soup_dedup_count_and_bounds:
  assumes "3 \<le> length source" and "\<forall>p \<in> set (processed source). no_nan p"
  shows "\<exists>m. snd (createMeshFromVertices_source source) = Some m \<and>
           vertex_count m = card (set (processed source)) \<and>
           length (vertices m) = 3 * vertex_count m \<and>
           distinct (map (mesh_vertex m) [0..<vertex_count m]) \<and>
           set (map (mesh_vertex m) [0..<vertex_count m]) = set (processed source) \<and>
           (\<forall>t \<in> set (triangles m). t < vertex_count m)"
proof -
  let ?m = "soup_mesh (processed source)"
  have "snd (createMeshFromVertices_source source) = Some ?m"
    using assms by (rule soup_result)
  moreover have "vertex_count ?m = card (set (processed source))"
    by (rule soup_mesh_fields)
  moreover have "length (vertices ?m) = 3 * vertex_count ?m"
    by (simp add: soup_mesh_fields length_flatten3 length_first_seen)
  moreover have "distinct (map (mesh_vertex ?m) [0..<vertex_count ?m])"
    by (simp only: soup_mesh_vertices distinct_first_seen)
  moreover have "set (map (mesh_vertex ?m) [0..<vertex_count ?m]) = set (processed source)"
    by (simp only: soup_mesh_vertices set_first_seen)
  moreover have "\<forall>t \<in> set (triangles ?m). t < vertex_count ?m"
    using first_index_in_range[of "processed source"] by (simp only: soup_mesh_fields)
  ultimately show ?thesis by blast
qed

theorem soup_dedup_count_and_bounds_witness:
  "3 \<le> length [(0, 0, 0), (1, 0, 0), (0, 1, 0), (1, 0, 0), (0, 1, 0), (1, 1, 0) :: Vector3d] \<and>
   list_all no_nan
     (processed [(0, 0, 0), (1, 0, 0), (0, 1, 0), (1, 0, 0), (0, 1, 0), (1, 1, 0)]) \<and>
   (\<exists>m. snd (createMeshFromVertices_source
              [(0, 0, 0), (1, 0, 0), (0, 1, 0), (1, 0, 0), (0, 1, 0), (1, 1, 0)]) = Some m \<and>
        vertex_count m = 4 \<and> length (vertices m) = 12 \<and>
        (\<forall>t \<in> set (triangles m). t < 4))"
proof -
  let ?src = "[(0, 0, 0), (1, 0, 0), (0, 1, 0), (1, 0, 0), (0, 1, 0), (1, 1, 0)] :: Vector3d list"
  have len: "3 \<le> length ?src" by simp
  have p: "processed ?src = ?src" by (simp add: processed_def)
  have nn: "\<forall>p \<in> set (processed ?src). no_nan p"
    unfolding p by (simp add: no_nan_def double_arith)
  from p have "card (set (processed ?src)) = length (remdups ?src)" by (simp only: card_set)
  also have "\<dots> = 4" by (simp add: double_arith)
  finally have c: "card (set (processed ?src)) = 4" .
  from nn have "list_all no_nan (processed ?src)" by (simp only: list_all_iff)
  with soup_dedup_count_and_bounds[OF len nn] c len show ?thesis by auto
qed

text \<open>
  Claim C2 as stated fails for a stream with a NaN coordinate: the third point,
  \<open>(1, 0, 0)\<close>, is in no set yet gets the id 0 of the first point, and the vertex
  its entry of the index array refers to is \<open>(NaN, 0, 0)\<close>.
\<close>

theorem soup_first_appearance_ids_counterexample:
  "map_option triangles
     (snd (createMeshFromVertices_source [(NaN, 0, 0), (NaN, 0, 0), (1, 0, 0)])) =
     Some [0, 0, 0] \<and>
   map_option (corner_vertex 2)
     (snd (createMeshFromVertices_source [(NaN, 0, 0), (NaN, 0, 0), (1, 0, 0)])) =
     Some (NaN, 0, 0) \<and>
   [(NaN, 0, 0), (NaN, 0, 0), (1, 0, 0) :: Vector3d] ! 2 \<noteq> (NaN, 0, 0)"
proof -
  let ?src = "[(NaN, 0, 0), (NaN, 0, 0), (1, 0, 0)] :: Vector3d list"
  have r: "snd (createMeshFromVertices_source ?src) = Some (soup_built ?src)"
    using soup_pair[of ?src] by (simp add: processed_def)
  have st: "fold add_vertex ?src ([], []) = ([\<lparr>vx = NaN, vy = 0, vz = 0, index = 0\<rparr>], [0, 0, 0])"
    by (simp add: LocalVertex_def ltLocalVertexValue_def less_double_irrefl)
  have t: "triangles (soup_built ?src) = [0, 0, 0]"
    and v: "vertices (soup_built ?src) = [NaN, 0, 0]"
    unfolding soup_built_def st Let_def
    by (simp_all add: computeNormals_fields sort_by_index_def flatten_local_def)
  have "corner_vertex 2 (soup_built ?src) = (NaN, 0, 0)"
    by (simp add: corner_vertex_def mesh_vertex_def array_read_def t v)
  moreover have "?src ! 2 \<noteq> (NaN, 0, 0)" by (simp add: double_arith)
  ultimately show ?thesis using r t by simp
qed

text \<open>
  Claim C2, amended. In soup-based construction on a stream none of whose
  processed points has a NaN coordinate, a point that was not seen before gets as
  id the number of distinct points seen so far, a point seen before gets the id it
  got then, one id is pushed for every point processed, and the vertices are
  emitted in order of first appearance; so the vertex at index \<open>triangles[j]\<close> has
  exactly the coordinates of the input point \<open>source[j]\<close>, for every corner \<open>j\<close> of
  every triangle.
\<close>

theorem soup_first_appearance_ids:
  assumes "3 \<le> length source" and "\<forall>p \<in> set (processed source). no_nan p"
  shows "\<exists>m. snd (createMeshFromVertices_source source) = Some m \<and>
           map (mesh_vertex m) [0..<vertex_count m] = first_seen (processed source) \<and>
           length (triangles m) = length (processed source) \<and>
           (\<forall>j < length (processed source).
              mesh_vertex m (triangles m ! j) = source ! j \<and>
              (source ! j \<notin> set (take j source) \<longrightarrow>
                 triangles m ! j = card (set (take j source))) \<and>
              (\<forall>i < j. source ! i = source ! j \<longrightarrow> triangles m ! j = triangles m ! i))"
proof -
  let ?P = "processed source"
  let ?U = "first_seen ?P"
  let ?m = "soup_mesh ?P"
  have res: "snd (createMeshFromVertices_source source) = Some ?m"
    using assms by (rule soup_result)
  have tri: "triangles ?m = map (first_index ?U) ?P" by (rule soup_mesh_fields)
  have per: "mesh_vertex ?m (triangles ?m ! j) = source ! j \<and>
              (source ! j \<notin> set (take j source) \<longrightarrow>
                 triangles ?m ! j = card (set (take j source))) \<and>
              (\<forall>i < j. source ! i = source ! j \<longrightarrow> triangles ?m ! j = triangles ?m ! i)"
    if j: "j < length ?P" for j
  proof -
    from j have Pj: "?P ! j = source ! j" by (simp add: processed_def)
    from j have "j < 3 * (length source div 3)" by (simp add: length_processed)
    then have tk: "take j ?P = take j source" by (simp add: processed_def min_def)
    from j have mem: "?P ! j \<in> set ?U" by (simp add: set_first_seen)
    have tj: "triangles ?m ! j = first_index ?U (?P ! j)" using j by (simp add: tri)
    have "first_index ?U (?P ! j) < length ?U" using mem by (rule first_index_less)
    then have "mesh_vertex ?m (first_index ?U (?P ! j)) = ?U ! first_index ?U (?P ! j)"
      by (rule mesh_vertex_flatten[OF soup_mesh_fields(3)])
    also have "\<dots> = ?P ! j" using mem by (rule nth_first_index)
    finally have a: "mesh_vertex ?m (triangles ?m ! j) = source ! j" by (simp add: tj Pj)
    have b: "triangles ?m ! j = card (set (take j source))" if "source ! j \<notin> set (take j source)"
      using first_index_first_occurrence[OF j] that by (simp add: tj Pj tk)
    have c: "triangles ?m ! j = triangles ?m ! i" if "i < j" "source ! i = source ! j" for i
    proof -
      from that j have "i < length ?P" by simp
      then have "triangles ?m ! i = first_index ?U (?P ! i)" by (simp add: tri)
      moreover from \<open>i < length ?P\<close> have "?P ! i = source ! i" by (simp add: processed_def)
      ultimately show ?thesis using that tj Pj by simp
    qed
    from a b c show ?thesis by blast
  qed
  have "map (mesh_vertex ?m) [0..<vertex_count ?m] = ?U" by (rule soup_mesh_vertices)
  moreover have "length (triangles ?m) = length ?P" by (simp add: tri)
  ultimately show ?thesis using res per by blast
qed

theorem soup_first_appearance_ids_witness:
  "3 \<le> length [(5, 0, 0), (1, 0, 0), (5, 0, 0) :: Vector3d] \<and>
   list_all no_nan (processed [(5, 0, 0), (1, 0, 0), (5, 0, 0)]) \<and>
   (\<exists>m. snd (createMeshFromVertices_source [(5, 0, 0), (1, 0, 0), (5, 0, 0)]) = Some m \<and>
        map (mesh_vertex m) [0..<vertex_count m] = [(5, 0, 0), (1, 0, 0)] \<and>
        triangles m ! 0 = 0 \<and> triangles m ! 1 = 1 \<and> triangles m ! 2 = 0)"
proof -
  let ?src = "[(5, 0, 0), (1, 0, 0), (5, 0, 0)] :: Vector3d list"
  have len: "3 \<le> length ?src" by simp
  have p: "processed ?src = ?src" by (simp add: processed_def)
  have nn: "\<forall>p \<in> set (processed ?src). no_nan p"
    unfolding p by (simp add: no_nan_def double_arith)
  from soup_first_appearance_ids[OF len nn]
  obtain m where m: "snd (createMeshFromVertices_source ?src) = Some m"
    "map (mesh_vertex m) [0..<vertex_count m] = first_seen (processed ?src)"
    "\<forall>j < length (processed ?src).
              mesh_vertex m (triangles m ! j) = ?src ! j \<and>
              (?src ! j \<notin> set (take j ?src) \<longrightarrow>
                 triangles m ! j = card (set (take j ?src))) \<and>
              (\<forall>i < j. ?src ! i = ?src ! j \<longrightarrow> triangles m ! j = triangles m ! i)"
    by auto
  have l: "length (processed ?src) = 3" by (simp add: processed_def)
  have ne: "(5, 0, 0) \<noteq> ((1, 0, 0) :: Vector3d)" "(1, 0, 0) \<noteq> ((5, 0, 0) :: Vector3d)"
    by (simp_all add: double_arith)
  have "triangles m ! 0 = 0" using m(3)[rule_format, of 0] l by simp
  moreover have "triangles m ! 1 = 1" using m(3)[rule_format, of 1] l ne by simp
  moreover have "triangles m ! 2 = triangles m ! 0" using m(3)[rule_format, of 2] l by simp
  moreover have "first_seen (processed ?src) = [(5, 0, 0), (1, 0, 0)]"
    using ne by (simp add: processed_def first_seen_def)
  moreover from nn have "list_all no_nan (processed ?src)" by (simp only: list_all_iff)
  ultimately show ?thesis using m(1,2) len by simp
qed

subsection \<open>Soup-based construction: the number of points; indexed construction\<close>

lemma soup_short: "length source < 3 \<Longrightarrow> createMeshFromVertices_source source = ([], None)"
  by (simp add: createMeshFromVertices_source_def)

lemma soup_built_fields:
  "triangle_count (soup_built ps) = length ps div 3"
  "length (triangles (soup_built ps)) = length ps"
  by (simp_all add: soup_built_def Let_def computeNormals_fields length_snd_fold_add_vertex)

text \<open>
  Claim C6. Soup-based construction returns no mesh for fewer than 3 points. When
  the number of points is at least 3 and no multiple of 3 it emits one diagnostic
  (through \<^verbatim>\<open>logError\<close>) and still returns a mesh, the one it returns for the first
  \<open>3 * (length source div 3)\<close> points alone, with \<open>length source div 3\<close> triangles.
  In particular 2 points give no mesh and 4 points give a mesh of exactly 1 triangle.
\<close>

theorem soup_point_count_boundaries:
  "(length source < 3 \<longrightarrow> createMeshFromVertices_source source = ([], None)) \<and>
   (3 \<le> length source \<and> length source mod 3 \<noteq> 0 \<longrightarrow>
      (\<exists>m. createMeshFromVertices_source source = (logError not_divisible_msg, Some m) \<and>
           triangle_count m = length source div 3 \<and>
           length (triangles m) = 3 * (length source div 3) \<and>
           createMeshFromVertices_source (processed source) = ([], Some m))) \<and>
   (length source = 2 \<longrightarrow> snd (createMeshFromVertices_source source) = None) \<and>
   (length source = 4 \<longrightarrow>
      (\<exists>m. snd (createMeshFromVertices_source source) = Some m \<and>
           triangle_count m = 1 \<and> length (triangles m) = 3 \<and>
           snd (createMeshFromVertices_source (take 3 source)) = Some m))"
proof -
  have general: "\<exists>m. createMeshFromVertices_source source =
           (if length source mod 3 \<noteq> 0 then logError not_divisible_msg else [], Some m) \<and>
           triangle_count m = length source div 3 \<and>
           length (triangles m) = 3 * (length source div 3) \<and>
           createMeshFromVertices_source (processed source) = ([], Some m)"
    if ge: "3 \<le> length source"
  proof -
    let ?m = "soup_built (processed source)"
    have lp: "length (processed source) = 3 * (length source div 3)" by (rule length_processed)
    from ge have "1 \<le> length source div 3" by presburger
    with lp have ge': "3 \<le> length (processed source)" by simp
    have "createMeshFromVertices_source (processed source) = ([], Some ?m)"
      using soup_pair[OF ge'] by (simp add: processed_idem lp)
    moreover have "triangle_count ?m = length source div 3"
      by (simp add: soup_built_fields lp)
    moreover have "length (triangles ?m) = 3 * (length source div 3)"
      by (simp add: soup_built_fields lp)
    ultimately show ?thesis using soup_pair[OF ge] by blast
  qed
  have a: "length source < 3 \<longrightarrow> createMeshFromVertices_source source = ([], None)"
    by (simp add: soup_short)
  have b: "3 \<le> length source \<and> length source mod 3 \<noteq> 0 \<longrightarrow>
      (\<exists>m. createMeshFromVertices_source source = (logError not_divisible_msg, Some m) \<and>
           triangle_count m = length source div 3 \<and>
           length (triangles m) = 3 * (length source div 3) \<and>
           createMeshFromVertices_source (processed source) = ([], Some m))"
    using general by auto
  have c: "length source = 2 \<longrightarrow> snd (createMeshFromVertices_source source) = None"
    by (simp add: soup_short)
  have d: "length source = 4 \<longrightarrow>
      (\<exists>m. snd (createMeshFromVertices_source source) = Some m \<and>
           triangle_count m = 1 \<and> length (triangles m) = 3 \<and>
           snd (createMeshFromVertices_source (take 3 source)) = Some m)"
  proof
    assume l: "length source = 4"
    then have "3 \<le> length source" by simp
    from general[OF this] l show "\<exists>m. snd (createMeshFromVertices_source source) = Some m \<and>
           triangle_count m = 1 \<and> length (triangles m) = 3 \<and>
           snd (createMeshFromVertices_source (take 3 source)) = Some m"
      by (auto simp: processed_def)
  qed
  from a b c d show ?thesis by blast
qed

theorem soup_point_count_boundaries_witness:
  "length [(0, 0, 0), (1, 0, 0), (0, 1, 0), (7, 7, 7) :: Vector3d] = 4 \<and>
   length [(0, 0, 0), (1, 0, 0) :: Vector3d] = 2 \<and>
   snd (createMeshFromVertices_source [(0, 0, 0), (1, 0, 0)]) = None \<and>
   (\<exists>m. snd (createMeshFromVertices_source [(0, 0, 0), (1, 0, 0), (0, 1, 0), (7, 7, 7)]) = Some m \<and>
        triangle_count m = 1 \<and> length (triangles m) = 3 \<and>
        snd (createMeshFromVertices_source [(0, 0, 0), (1, 0, 0), (0, 1, 0)]) = Some m)"
proof -
  let ?four = "[(0, 0, 0), (1, 0, 0), (0, 1, 0), (7, 7, 7)] :: Vector3d list"
  let ?two = "[(0, 0, 0), (1, 0, 0)] :: Vector3d list"
  have l4: "length ?four = 4" and l2: "length ?two = 2" by simp_all
  have t3: "take 3 ?four = [(0, 0, 0), (1, 0, 0), (0, 1, 0)]" by simp
  from soup_point_count_boundaries[of ?two] l2
  have a: "snd (createMeshFromVertices_source ?two) = None" by blast
  from soup_point_count_boundaries[of ?four] l4
  have "\<exists>m. snd (createMeshFromVertices_source ?four) = Some m \<and>
           triangle_count m = 1 \<and> length (triangles m) = 3 \<and>
           snd (createMeshFromVertices_source (take 3 ?four)) = Some m" by blast
  then have b: "\<exists>m. snd (createMeshFromVertices_source ?four) = Some m \<and>
           triangle_count m = 1 \<and> length (triangles m) = 3 \<and>
           snd (createMeshFromVertices_source [(0, 0, 0), (1, 0, 0), (0, 1, 0)]) = Some m"
    by (simp only: t3)
  from l4 l2 a b show ?thesis by blast
qed

lemma indexed_result:
  "createMeshFromVertices vs ts =
     (drop (3 * (length ts div 3)) ts,
      Some (computeNormals \<lparr>vertex_count = length vs, triangle_count = length ts div 3,
             vertices = flatten3 vs, triangles = take (3 * (length ts div 3)) ts,
             normals = []\<rparr>))"
  by (simp add: createMeshFromVertices_def Let_def std_copy_def)

lemma flatten3_copy_fits: "fst (createMeshFromVertices vs (flatten3 tris)) = []"
  by (simp add: indexed_result length_flatten3)

lemma triangle_normal_computeNormals: "triangle_normal (computeNormals m) = triangle_normal m"
  by (rule triangle_normal_cong) (simp_all add: computeNormals_fields)

lemma normals_computeNormals_self:
  "normals (computeNormals m) =
     concat (map (triangle_normal (computeNormals m)) [0..<triangle_count (computeNormals m)])"
  by (simp only: triangle_normal_computeNormals computeNormals_fields)




subsection \<open>Messages and extents\<close>

lemma flatten3_unflatten:
  assumes "length xs = 3 * n"
  shows "flatten3 (map (\<lambda>i. (array_read xs (i * 3), array_read xs (i * 3 + 1),
            array_read xs (i * 3 + 2))) [0..<n]) = xs"
proof (rule nth_equalityI)
  let ?us = "map (\<lambda>i. (array_read xs (i * 3), array_read xs (i * 3 + 1),
            array_read xs (i * 3 + 2))) [0..<n]"
  show len: "length (flatten3 ?us) = length xs"
    by (simp add: length_flatten3 assms)
  fix k assume "k < length (flatten3 ?us)"
  then have k: "k < 3 * n" by (simp add: length_flatten3)
  define i where "i = k div 3"
  define r where "r = k mod 3"
  have ki: "k = 3 * i + r" and r: "r < 3" and i: "i < n"
    using k by (simp_all add: i_def r_def)
  have iu: "i < length ?us" using i by simp
  have ui: "?us ! i = (xs ! (3 * i), xs ! (3 * i + 1), xs ! (3 * i + 2))"
    using i assms by (simp add: array_read_def mult.commute)
  from r consider "r = 0" | "r = 1" | "r = 2" by linarith
  then show "flatten3 ?us ! k = xs ! k"
  proof cases
    case 1
    then show ?thesis using flatten3_nth(1)[OF iu] ui ki by simp
  next
    case 2
    then show ?thesis using flatten3_nth(2)[OF iu] ui ki by simp
  next
    case 3
    then show ?thesis using flatten3_nth(3)[OF iu] ui ki by simp
  qed
qed


lemmas dim_offsets = SPHERE_RADIUS_def BOX_X_def BOX_Y_def BOX_Z_def CYLINDER_RADIUS_def
  CYLINDER_HEIGHT_def CONE_RADIUS_def CONE_HEIGHT_def

lemma from_primitive_sphere:
  "type s = SolidPrimitive_SPHERE \<Longrightarrow>
   constructShapeFromMsg_SolidPrimitive s =
     (if length (dimensions s) < 1
      then (logError ''Unable to construct shape corresponding to shape_msgect of type %d'', None)
      else ([], Some (Sphere (dimensions s ! SPHERE_RADIUS))))"
  by (simp add: constructShapeFromMsg_SolidPrimitive_def Let_def dim_offsets)

lemma from_primitive_box:
  "type s = SolidPrimitive_BOX \<Longrightarrow>
   constructShapeFromMsg_SolidPrimitive s =
     (if length (dimensions s) < 3
      then (logError ''Unable to construct shape corresponding to shape_msgect of type %d'', None)
      else ([], Some (Box (dimensions s ! BOX_X) (dimensions s ! BOX_Y) (dimensions s ! BOX_Z))))"
  by (auto simp: constructShapeFromMsg_SolidPrimitive_def Let_def dim_offsets)

lemma from_primitive_cylinder:
  "type s = SolidPrimitive_CYLINDER \<Longrightarrow>
   constructShapeFromMsg_SolidPrimitive s =
     (if length (dimensions s) < 2
      then (logError ''Unable to construct shape corresponding to shape_msgect of type %d'', None)
      else ([], Some (Cylinder (dimensions s ! CYLINDER_RADIUS) (dimensions s ! CYLINDER_HEIGHT))))"
  by (auto simp: constructShapeFromMsg_SolidPrimitive_def Let_def dim_offsets)

lemma from_primitive_cone:
  "type s = SolidPrimitive_CONE \<Longrightarrow>
   constructShapeFromMsg_SolidPrimitive s =
     (if length (dimensions s) < 2
      then (logError ''Unable to construct shape corresponding to shape_msgect of type %d'', None)
      else ([], Some (Cone (dimensions s ! CONE_RADIUS) (dimensions s ! CONE_HEIGHT))))"
  by (auto simp: constructShapeFromMsg_SolidPrimitive_def Let_def dim_offsets)

lemma from_primitive_other:
  "type s = SolidPrimitive_other b \<Longrightarrow>
   constructShapeFromMsg_SolidPrimitive s =
     (logError ''Unable to construct shape corresponding to shape_msgect of type %d'', None)"
  by (simp add: constructShapeFromMsg_SolidPrimitive_def Let_def)

lemma from_mesh_msg:
  "constructShapeFromMsg_Mesh m =
     (if msg_triangles m = [] \<or> msg_vertices m = []
      then (logWarn ''Mesh definition is empty'', None)
      else ([], map_option MeshShape
                  (snd (createMeshFromVertices (msg_vertices m) (flatten3 (msg_triangles m))))))"
  by (simp add: constructShapeFromMsg_Mesh_def Let_def map_nth)

lemma createMeshFromVertices_Some: "snd (createMeshFromVertices vs ts) \<noteq> None"
  by (simp add: createMeshFromVertices_def Let_def)

text \<open>
  Claim C5. \<^verbatim>\<open>constructShapeFromMsg\<close> returns no shape for a sphere message with
  fewer than 1 dimension, a box message with fewer than 3, a cylinder or cone
  message with fewer than 2, and otherwise builds the shape from the dimensions
  at the fixed offsets (no default is substituted); a message whose type is none
  of the four kinds gives no shape either. A mesh message gives no shape exactly
  when its vertices or its triangles are empty; a plane message always gives the
  plane of its four coefficients.
\<close>

theorem constructShapeFromMsg_failures:
  "(type s = SolidPrimitive_SPHERE \<longrightarrow>
      snd (constructShapeFromMsg (SolidPrimitiveMsg s)) =
        (if length (dimensions s) < 1 then None
         else Some (Sphere (dimensions s ! SPHERE_RADIUS)))) \<and>
   (type s = SolidPrimitive_BOX \<longrightarrow>
      snd (constructShapeFromMsg (SolidPrimitiveMsg s)) =
        (if length (dimensions s) < 3 then None
         else Some (Box (dimensions s ! BOX_X) (dimensions s ! BOX_Y) (dimensions s ! BOX_Z)))) \<and>
   (type s = SolidPrimitive_CYLINDER \<longrightarrow>
      snd (constructShapeFromMsg (SolidPrimitiveMsg s)) =
        (if length (dimensions s) < 2 then None
         else Some (Cylinder (dimensions s ! CYLINDER_RADIUS) (dimensions s ! CYLINDER_HEIGHT)))) \<and>
   (type s = SolidPrimitive_CONE \<longrightarrow>
      snd (constructShapeFromMsg (SolidPrimitiveMsg s)) =
        (if length (dimensions s) < 2 then None
         else Some (Cone (dimensions s ! CONE_RADIUS) (dimensions s ! CONE_HEIGHT)))) \<and>
   (\<forall>b. type s = SolidPrimitive_other b \<longrightarrow>
      snd (constructShapeFromMsg (SolidPrimitiveMsg s)) = None) \<and>
   (snd (constructShapeFromMsg (MeshShapeMsg m)) = None \<longleftrightarrow>
      msg_vertices m = [] \<or> msg_triangles m = []) \<and>
   snd (constructShapeFromMsg (PlaneShapeMsg p)) =
     Some (Plane (fst (coef p)) (fst (snd (coef p))) (fst (snd (snd (coef p))))
                 (snd (snd (snd (coef p)))))"
proof -
  have mesh: "snd (constructShapeFromMsg (MeshShapeMsg m)) = None \<longleftrightarrow>
      msg_vertices m = [] \<or> msg_triangles m = []"
    using createMeshFromVertices_Some[of "msg_vertices m" "flatten3 (msg_triangles m)"]
    by (auto simp: from_mesh_msg)
  have plane: "snd (constructShapeFromMsg (PlaneShapeMsg p)) =
     Some (Plane (fst (coef p)) (fst (snd (coef p))) (fst (snd (snd (coef p))))
                 (snd (snd (snd (coef p)))))"
    by (simp add: constructShapeFromMsg_Plane_def split: prod.splits)
  show ?thesis
    using mesh plane
    by (simp add: from_primitive_sphere from_primitive_box from_primitive_cylinder
        from_primitive_cone from_primitive_other)
qed

theorem constructShapeFromMsg_failures_witness:
  "snd (constructShapeFromMsg (SolidPrimitiveMsg
          \<lparr>type = SolidPrimitive_SPHERE, dimensions = []\<rparr>)) = None \<and>
   snd (constructShapeFromMsg (SolidPrimitiveMsg
          \<lparr>type = SolidPrimitive_SPHERE, dimensions = [2]\<rparr>)) = Some (Sphere 2) \<and>
   snd (constructShapeFromMsg (SolidPrimitiveMsg
          \<lparr>type = SolidPrimitive_BOX, dimensions = [1, 2]\<rparr>)) = None \<and>
   snd (constructShapeFromMsg (SolidPrimitiveMsg
          \<lparr>type = SolidPrimitive_BOX, dimensions = [1, 2, 3]\<rparr>)) = Some (Box 1 2 3) \<and>
   snd (constructShapeFromMsg (SolidPrimitiveMsg
          \<lparr>type = SolidPrimitive_CYLINDER, dimensions = [1]\<rparr>)) = None \<and>
   snd (constructShapeFromMsg (SolidPrimitiveMsg
          \<lparr>type = SolidPrimitive_CONE, dimensions = [1]\<rparr>)) = None \<and>
   snd (constructShapeFromMsg (SolidPrimitiveMsg
          \<lparr>type = SolidPrimitive_other 0, dimensions = [1, 2, 3]\<rparr>)) = None \<and>
   snd (constructShapeFromMsg (MeshShapeMsg
          \<lparr>msg_triangles = [], msg_vertices = [(0, 0, 0)]\<rparr>)) = None"
  using
    constructShapeFromMsg_failures
      [of "\<lparr>type = SolidPrimitive_SPHERE, dimensions = []\<rparr>"
          "\<lparr>msg_triangles = [], msg_vertices = [(0, 0, 0)]\<rparr>"]
    constructShapeFromMsg_failures[of "\<lparr>type = SolidPrimitive_SPHERE, dimensions = [2]\<rparr>"]
    constructShapeFromMsg_failures[of "\<lparr>type = SolidPrimitive_BOX, dimensions = [1, 2]\<rparr>"]
    constructShapeFromMsg_failures[of "\<lparr>type = SolidPrimitive_BOX, dimensions = [1, 2, 3]\<rparr>"]
    constructShapeFromMsg_failures[of "\<lparr>type = SolidPrimitive_CYLINDER, dimensions = [1]\<rparr>"]
    constructShapeFromMsg_failures[of "\<lparr>type = SolidPrimitive_CONE, dimensions = [1]\<rparr>"]
    constructShapeFromMsg_failures[of "\<lparr>type = SolidPrimitive_other 0, dimensions = [1, 2, 3]\<rparr>"]
  by (simp add: dim_offsets)

text \<open>
  Claim C9. For every plane message, whatever its coefficients,
  \<^verbatim>\<open>computeShapeExtents\<close> returns the zero vector; so it does, logging nothing, for
  every plane shape.
\<close>

theorem plane_extents_zero:
  "computeShapeExtents tools (PlaneShapeMsg shape_msg) = (0, 0, 0) \<and>
   computeShapeExtents_Shape tools (Plane a b c d) = ([], (0, 0, 0))"
  by (simp add: computeShapeExtents_Shape_def)

text \<open>
  Claim C10. For every shape whose conversion to a message fails, which are the
  shapes of discriminant \<open>OCTREE\<close> or outside the named ones,
  \<^verbatim>\<open>computeShapeExtents\<close> on the shape returns the zero vector, the value it returns
  for a plane; the failure shows in the console only.
\<close>

theorem unsupported_extents_zero:
  "(\<not> fst (snd (constructMsgFromShape shape msg)) \<longleftrightarrow>
      shape_type shape = OCTREE \<or> shape_type shape = UNKNOWN_SHAPE) \<and>
   (\<not> fst (snd (constructMsgFromShape shape ShapeMsg_default)) \<longrightarrow>
      computeShapeExtents_Shape tools shape =
        (logError ''Unable to construct shape message for shape of type %d'', (0, 0, 0))) \<and>
   snd (computeShapeExtents_Shape tools (Plane a b c d)) = (0, 0, 0)"
  by (cases shape) (simp_all add: computeShapeExtents_Shape_def)

theorem unsupported_extents_zero_witness:
  "\<not> fst (snd (constructMsgFromShape OcTree ShapeMsg_default)) \<and>
   snd (computeShapeExtents_Shape
          \<lparr>getShapeExtents_Mesh = (\<lambda>m. (1, 1, 1)),
           getShapeExtents_SolidPrimitive = (\<lambda>s. (1, 1, 1))\<rparr> OcTree) = (0, 0, 0) \<and>
   snd (computeShapeExtents_Shape
          \<lparr>getShapeExtents_Mesh = (\<lambda>m. (1, 1, 1)),
           getShapeExtents_SolidPrimitive = (\<lambda>s. (1, 1, 1))\<rparr> OcTree) =
     snd (computeShapeExtents_Shape
          \<lparr>getShapeExtents_Mesh = (\<lambda>m. (1, 1, 1)),
           getShapeExtents_SolidPrimitive = (\<lambda>s. (1, 1, 1))\<rparr> (Plane 1 2 3 4))"
  using unsupported_extents_zero
    [of OcTree ShapeMsg_default
        "\<lparr>getShapeExtents_Mesh = (\<lambda>m. (1, 1, 1)),
          getShapeExtents_SolidPrimitive = (\<lambda>s. (1, 1, 1))\<rparr>" 1 2 3 4]
  by simp

lemma mesh_round_trip:
  assumes "mesh_sized m" "0 < vertex_count m" "0 < triangle_count m"
  shows "\<exists>msg. constructMsgFromShape (MeshShape m) msg0 = ([], True, msg) \<and>
           constructShapeFromMsg msg = ([], Some (MeshShape (computeNormals m)))"
proof -
  let ?tris = "map (\<lambda>i. (array_read (triangles m) (i * 3),
                      array_read (triangles m) (i * 3 + 1),
                      array_read (triangles m) (i * 3 + 2))) [0..<triangle_count m]"
  let ?verts = "map (\<lambda>i. (array_read (vertices m) (i * 3),
                      array_read (vertices m) (i * 3 + 1),
                      array_read (vertices m) (i * 3 + 2))) [0..<vertex_count m]"
  let ?msg = "\<lparr>msg_triangles = ?tris, msg_vertices = ?verts\<rparr>"
  from assms(1) have lv: "length (vertices m) = 3 * vertex_count m"
    and lt: "length (triangles m) = 3 * triangle_count m"
    by (simp_all add: mesh_sized_def)
  have fv: "flatten3 ?verts = vertices m" using lv by (rule flatten3_unflatten)
  have ft: "flatten3 ?tris = triangles m" using lt by (rule flatten3_unflatten)
  have ne: "?tris \<noteq> []" "?verts \<noteq> []" using assms(2,3) by simp_all
  have "snd (createMeshFromVertices ?verts (flatten3 ?tris)) =
          Some (computeNormals \<lparr>vertex_count = vertex_count m, triangle_count = triangle_count m,
             vertices = vertices m, triangles = triangles m, normals = []\<rparr>)"
  proof -
    have lv': "length ?verts = vertex_count m" by simp
    have d: "3 * triangle_count m div 3 = triangle_count m" by simp
    show ?thesis
      unfolding indexed_result fv ft lv' lt d by (simp add: lt[symmetric])
  qed
  moreover have "computeNormals \<lparr>vertex_count = vertex_count m, triangle_count = triangle_count m,
             vertices = vertices m, triangles = triangles m, normals = []\<rparr> = computeNormals m"
  proof -
    have tn: "triangle_normal \<lparr>vertex_count = vertex_count m, triangle_count = triangle_count m,
             vertices = vertices m, triangles = triangles m, normals = []\<rparr> = triangle_normal m"
      by (rule triangle_normal_cong) simp_all
    show ?thesis
      unfolding computeNormals_def tn by (cases m) simp
  qed
  ultimately have "constructShapeFromMsg_Mesh ?msg = ([], Some (MeshShape (computeNormals m)))"
    using ne by (simp add: from_mesh_msg)
  then show ?thesis by simp
qed

lemma empty_mesh_round_trip:
  assumes "vertex_count m = 0 \<or> triangle_count m = 0"
  shows "\<exists>msg. constructMsgFromShape (MeshShape m) msg0 = ([], True, msg) \<and>
           constructShapeFromMsg msg = (logWarn ''Mesh definition is empty'', None)"
  using assms by (auto simp: from_mesh_msg)

lemma computeNormals_id:
  "normals m = concat (map (triangle_normal m) [0..<triangle_count m]) \<Longrightarrow> computeNormals m = m"
  by (simp add: computeNormals_def)

text \<open>
  Claim C4 as stated fails for a mesh without triangles, such as the one indexed
  construction returns for three vertices and no index: the message is built and
  the conversion back gives no shape.
\<close>

theorem msg_round_trip_counterexample:
  "createMeshFromVertices [(0, 0, 0), (1, 0, 0), (0, 1, 0)] [] =
     ([], Some \<lparr>vertex_count = 3, triangle_count = 0, vertices = [0, 0, 0, 1, 0, 0, 0, 1, 0],
                triangles = [], normals = []\<rparr>) \<and>
   fst (snd (constructMsgFromShape
      (MeshShape \<lparr>vertex_count = 3, triangle_count = 0, vertices = [0, 0, 0, 1, 0, 0, 0, 1, 0],
           triangles = [], normals = []\<rparr>) ShapeMsg_default)) \<and>
   snd (constructShapeFromMsg (snd (snd (constructMsgFromShape
      (MeshShape \<lparr>vertex_count = 3, triangle_count = 0, vertices = [0, 0, 0, 1, 0, 0, 0, 1, 0],
           triangles = [], normals = []\<rparr>) ShapeMsg_default)))) = None"
  by (simp add: createMeshFromVertices_def computeNormals_def flatten3_def std_copy_def
      constructShapeFromMsg_Mesh_def)

text \<open>
  Claim C4, amended. Converting a sphere, box, cylinder, cone or plane to a message
  and back gives the shape itself. Converting a mesh with at least one vertex and
  one triangle gives the mesh with its normals recomputed, which is the mesh itself
  when its normals are the computed ones; for a mesh without vertices or without
  triangles the message is built and the conversion back gives no shape.
  \<^verbatim>\<open>constructMsgFromShape\<close> on a shape of discriminant \<open>OCTREE\<close>, or of none of the
  named ones, returns false and leaves the message as it was.
\<close>

theorem msg_round_trip:
  "(shape_type s \<in> {SPHERE, BOX, CYLINDER, CONE, PLANE} \<longrightarrow>
      (\<exists>msg. constructMsgFromShape s msg0 = ([], True, msg) \<and>
             constructShapeFromMsg msg = ([], Some s))) \<and>
   (\<forall>m. s = MeshShape m \<and> mesh_sized m \<and> 0 < vertex_count m \<and> 0 < triangle_count m \<longrightarrow>
      (\<exists>msg. constructMsgFromShape s msg0 = ([], True, msg) \<and>
             constructShapeFromMsg msg = ([], Some (MeshShape (computeNormals m))) \<and>
             (normals m = concat (map (triangle_normal m) [0..<triangle_count m]) \<longrightarrow>
                constructShapeFromMsg msg = ([], Some s)))) \<and>
   (\<forall>m. s = MeshShape m \<and> (vertex_count m = 0 \<or> triangle_count m = 0) \<longrightarrow>
      (\<exists>msg. constructMsgFromShape s msg0 = ([], True, msg) \<and>
             snd (constructShapeFromMsg msg) = None)) \<and>
   (shape_type s = OCTREE \<or> shape_type s = UNKNOWN_SHAPE \<longrightarrow>
      snd (constructMsgFromShape s msg0) = (False, msg0))"
proof (intro conjI impI allI)
  assume "shape_type s \<in> {SPHERE, BOX, CYLINDER, CONE, PLANE}"
  then show "\<exists>msg. constructMsgFromShape s msg0 = ([], True, msg) \<and>
             constructShapeFromMsg msg = ([], Some s)"
    by (cases s)
      (simp_all add: from_primitive_sphere from_primitive_box from_primitive_cylinder
        from_primitive_cone constructShapeFromMsg_Plane_def dim_offsets)
next
  fix m
  assume a: "s = MeshShape m \<and> mesh_sized m \<and> 0 < vertex_count m \<and> 0 < triangle_count m"
  then obtain msg where msg: "constructMsgFromShape (MeshShape m) msg0 = ([], True, msg)"
    "constructShapeFromMsg msg = ([], Some (MeshShape (computeNormals m)))"
    using mesh_round_trip[of m msg0] by blast
  have "normals m = concat (map (triangle_normal m) [0..<triangle_count m]) \<longrightarrow>
                constructShapeFromMsg msg = ([], Some s)"
    using msg(2) a by (simp add: computeNormals_id)
  with msg a show "\<exists>msg. constructMsgFromShape s msg0 = ([], True, msg) \<and>
             constructShapeFromMsg msg = ([], Some (MeshShape (computeNormals m))) \<and>
             (normals m = concat (map (triangle_normal m) [0..<triangle_count m]) \<longrightarrow>
                constructShapeFromMsg msg = ([], Some s))"
    by (intro exI[of _ msg]) simp
next
  fix m
  assume "s = MeshShape m \<and> (vertex_count m = 0 \<or> triangle_count m = 0)"
  then show "\<exists>msg. constructMsgFromShape s msg0 = ([], True, msg) \<and>
             snd (constructShapeFromMsg msg) = None"
    using empty_mesh_round_trip[of m msg0] by auto
next
  assume "shape_type s = OCTREE \<or> shape_type s = UNKNOWN_SHAPE"
  then show "snd (constructMsgFromShape s msg0) = (False, msg0)"
    by (cases s) simp_all
qed

theorem msg_round_trip_witness:
  "shape_type (Box 1 2 3) \<in> {SPHERE, BOX, CYLINDER, CONE, PLANE} \<and>
   snd (constructShapeFromMsg (snd (snd (constructMsgFromShape (Box 1 2 3) ShapeMsg_default))))
     = Some (Box 1 2 3) \<and>
   mesh_sized \<lparr>vertex_count = 3, triangle_count = 1, vertices = [0, 0, 0, 1, 0, 0, 0, 1, 0],
      triangles = [0, 1, 2], normals = [0, 0, 1]\<rparr> \<and>
   snd (constructShapeFromMsg (snd (snd (constructMsgFromShape
      (MeshShape \<lparr>vertex_count = 3, triangle_count = 1, vertices = [0, 0, 0, 1, 0, 0, 0, 1, 0],
         triangles = [0, 1, 2], normals = [0, 0, 1]\<rparr>) ShapeMsg_default))))
     = Some (MeshShape (computeNormals
         \<lparr>vertex_count = 3, triangle_count = 1, vertices = [0, 0, 0, 1, 0, 0, 0, 1, 0],
          triangles = [0, 1, 2], normals = [0, 0, 1]\<rparr>)) \<and>
   snd (constructShapeFromMsg (snd (snd (constructMsgFromShape
      (MeshShape \<lparr>vertex_count = 0, triangle_count = 0, vertices = [],
         triangles = [], normals = []\<rparr>) ShapeMsg_default)))) = None \<and>
   shape_type OcTree = OCTREE \<and>
   snd (constructMsgFromShape OcTree ShapeMsg_default) = (False, ShapeMsg_default)"
proof -
  let ?M = "\<lparr>vertex_count = 3, triangle_count = 1, vertices = [0, 0, 0, 1, 0, 0, 0, 1, 0],
      triangles = [0, 1, 2], normals = [0, 0, 1]\<rparr> :: Mesh"
  let ?E = "\<lparr>vertex_count = 0, triangle_count = 0, vertices = [],
         triangles = [], normals = []\<rparr> :: Mesh"
  have b: "shape_type (Box 1 2 3) \<in> {SPHERE, BOX, CYLINDER, CONE, PLANE}" by simp
  have sized: "mesh_sized ?M" by (simp add: mesh_sized_def)
  have o: "shape_type OcTree = OCTREE" by simp
  from msg_round_trip[of "Box 1 2 3" ShapeMsg_default] b
  have 1: "snd (constructShapeFromMsg (snd (snd (constructMsgFromShape (Box 1 2 3) ShapeMsg_default))))
     = Some (Box 1 2 3)" by auto
  have "MeshShape ?M = MeshShape ?M \<and> mesh_sized ?M \<and> 0 < vertex_count ?M \<and> 0 < triangle_count ?M"
    using sized by simp
  with msg_round_trip[of "MeshShape ?M" ShapeMsg_default]
  have "\<exists>msg. constructMsgFromShape (MeshShape ?M) ShapeMsg_default = ([], True, msg) \<and>
             constructShapeFromMsg msg = ([], Some (MeshShape (computeNormals ?M)))"
    by blast
  then have 2: "snd (constructShapeFromMsg (snd (snd (constructMsgFromShape
      (MeshShape ?M) ShapeMsg_default)))) = Some (MeshShape (computeNormals ?M))"
    by auto
  have "MeshShape ?E = MeshShape ?E \<and> (vertex_count ?E = 0 \<or> triangle_count ?E = 0)" by simp
  with msg_round_trip[of "MeshShape ?E" ShapeMsg_default]
  have "\<exists>msg. constructMsgFromShape (MeshShape ?E) ShapeMsg_default = ([], True, msg) \<and>
             snd (constructShapeFromMsg msg) = None" by blast
  then have 3: "snd (constructShapeFromMsg (snd (snd (constructMsgFromShape
      (MeshShape ?E) ShapeMsg_default)))) = None" by auto
  from msg_round_trip[of OcTree ShapeMsg_default] o
  have 4: "snd (constructMsgFromShape OcTree ShapeMsg_default) = (False, ShapeMsg_default)"
    by blast
  from b 1 sized 2 3 o 4 show ?thesis by (intro conjI)
qed

subsection \<open>Loading a shape from text\<close>

lemmas type_names = Sphere_STRING_NAME_def Box_STRING_NAME_def Cylinder_STRING_NAME_def
  Cone_STRING_NAME_def Plane_STRING_NAME_def Mesh_STRING_NAME_def

lemmas example_defs = example_env_def example_get_double_def example_get_unsigned_def
  decimal_value_def isdigit_def text_stream_def double_arith

lemmas stream_defs = get_string_def get_number_def sentry_def good_def eof_def isspace_def

lemma good_not_eof: "(good s \<and> \<not> eof s) = good s"
  by (auto simp: good_def eof_def)

lemma good_eof: "good s \<Longrightarrow> \<not> eof s"
  by (simp add: good_def eof_def)

lemma text_not_good: "\<not> good inp \<Longrightarrow> constructShapeFromText env inp = ([], None, inp)"
  by (simp add: constructShapeFromText_def)

lemma text_token_not_good:
  "good inp \<Longrightarrow> get_string inp [] = (t, s0) \<Longrightarrow> \<not> good s0 \<Longrightarrow>
   constructShapeFromText env inp = ([], None, s0)"
  by (simp add: constructShapeFromText_def good_eof)

lemma text_unknown:
  "good inp \<Longrightarrow> get_string inp [] = (t, s0) \<Longrightarrow> good s0 \<Longrightarrow>
   t \<notin> {Sphere_STRING_NAME, Box_STRING_NAME, Cylinder_STRING_NAME, Cone_STRING_NAME,
          Plane_STRING_NAME, Mesh_STRING_NAME} \<Longrightarrow>
   constructShapeFromText env inp = (logError (unknown_type_msg t), None, s0)"
  by (simp add: constructShapeFromText_def good_eof)

lemma text_known:
  "good inp \<Longrightarrow> get_string inp [] = (t, s0) \<Longrightarrow> good s0 \<Longrightarrow>
   t \<in> {Sphere_STRING_NAME, Box_STRING_NAME, Cylinder_STRING_NAME, Cone_STRING_NAME,
          Plane_STRING_NAME, Mesh_STRING_NAME} \<Longrightarrow>
   fst (constructShapeFromText env inp) = [] \<and>
   map_option shape_type (fst (snd (constructShapeFromText env inp))) =
     Some (if t = Sphere_STRING_NAME then SPHERE else if t = Box_STRING_NAME then BOX
           else if t = Cylinder_STRING_NAME then CYLINDER else if t = Cone_STRING_NAME then CONE
           else if t = Plane_STRING_NAME then PLANE else MESH)"
  by (auto simp: constructShapeFromText_def good_eof split: prod.splits)

lemma sentry_fail:
  "good s \<Longrightarrow> dropWhile isspace (chars s) = [] \<Longrightarrow>
   sentry s = (False, s\<lparr>chars := [], eofbit := True, failbit := True\<rparr>)"
  by (simp add: sentry_def Let_def del: dropWhile_eq_Nil_conv)

lemma sentry_ok:
  "good s \<Longrightarrow> dropWhile isspace (chars s) \<noteq> [] \<Longrightarrow>
   sentry s = (True, s\<lparr>chars := dropWhile isspace (chars s)\<rparr>)"
  by (simp add: sentry_def Let_def del: dropWhile_eq_Nil_conv)

lemma get_string_good:
  assumes "good inp"
  shows "good (snd (get_string inp str)) \<longleftrightarrow>
     dropWhile (\<lambda>c. \<not> isspace c) (dropWhile isspace (chars inp)) \<noteq> []"
proof (cases "dropWhile isspace (chars inp) = []")
  case True
  then show ?thesis
    by (simp add: get_string_def sentry_fail[OF assms True] good_def del: dropWhile_eq_Nil_conv)
next
  case False
  from assms show ?thesis
    by (simp add: get_string_def sentry_ok[OF assms False] good_def Let_def
        del: dropWhile_eq_Nil_conv)
qed

lemma get_string_token:
  assumes "good inp" "good (snd (get_string inp str))"
  shows "fst (get_string inp str) =
     takeWhile (\<lambda>c. \<not> isspace c) (dropWhile isspace (chars inp))"
proof (cases "dropWhile isspace (chars inp) = []")
  case True
  with assms(2) show ?thesis
    by (simp add: get_string_def sentry_fail[OF assms(1) True] good_def
        del: dropWhile_eq_Nil_conv)
next
  case False
  show ?thesis
    by (simp add: get_string_def sentry_ok[OF assms(1) False] Let_def)
qed


lemma text_example_missing_field:
  "fst (snd (constructShapeFromText example_env (text_stream (''box 1 2.5'' @ [CHR 0x0A])))) =
     Some (Box 1 (5 / 2) (- 1))"
  by (simp add: constructShapeFromText_def stream_defs type_names example_defs)

text \<open>
  After one of the six names followed by more input a shape of the named type is
  returned and nothing is logged, whatever the rest of the input holds: the stream
  is not tested after the numeric extractions.
\<close>

lemma text_known_type_returns_shape:
  assumes "good inp" "after_type_token inp \<noteq> []"
    "type_token inp \<in> {Sphere_STRING_NAME, Box_STRING_NAME, Cylinder_STRING_NAME,
                        Cone_STRING_NAME, Plane_STRING_NAME, Mesh_STRING_NAME}"
  shows "fst (constructShapeFromText env inp) = [] \<and>
      map_option shape_type (fst (snd (constructShapeFromText env inp))) =
        Some (if type_token inp = Sphere_STRING_NAME then SPHERE
              else if type_token inp = Box_STRING_NAME then BOX
              else if type_token inp = Cylinder_STRING_NAME then CYLINDER
              else if type_token inp = Cone_STRING_NAME then CONE
              else if type_token inp = Plane_STRING_NAME then PLANE else MESH)"
proof -
  obtain t s0 where g: "get_string inp [] = (t, s0)" by (cases "get_string inp []")
  have good: "good s0"
    using get_string_good[OF assms(1), of "[]"] g assms(2) by (simp add: after_type_token_def)
  then have t: "t = type_token inp"
    using get_string_token[OF assms(1), of "[]"] g by (simp add: type_token_def)
  from assms(3) have "t \<in> {Sphere_STRING_NAME, Box_STRING_NAME, Cylinder_STRING_NAME,
                        Cone_STRING_NAME, Plane_STRING_NAME, Mesh_STRING_NAME}"
    unfolding t .
  from text_known[OF assms(1) g good this] show ?thesis unfolding t .
qed

text \<open>
  Claim C7 as stated fails twice. At the end of the input the result is null and
  nothing is logged; and when the numeric fields are missing, as after the type
  name \<open>sphere\<close> and a line end, a sphere is returned, whose radius is whatever the
  uninitialised variable holds.
\<close>

theorem constructShapeFromText_failures_counterexample:
  "constructShapeFromText example_env (text_stream []) =
     ([], None, \<lparr>chars = [], eofbit = True, failbit = True\<rparr>) \<and>
   fst (snd (constructShapeFromText example_env (text_stream (''sphere'' @ [CHR 0x0A])))) =
     Some (Sphere (- 1))"
  by (simp add: constructShapeFromText_def stream_defs type_names example_defs)

text \<open>
  Claim C7, amended. \<^verbatim>\<open>constructShapeFromText\<close> returns a null result, and logs
  nothing, when the stream is not good on entry or when the input ends before the
  type name or right at its end; it returns a null result and logs
  \<open>Unknown shape type\<close> with the token when the token, followed by more input, is none
  of the six type names.
\<close>

theorem constructShapeFromText_failures:
  "(\<not> good inp \<or> after_type_token inp = [] \<longrightarrow>
      fst (constructShapeFromText env inp) = [] \<and>
      fst (snd (constructShapeFromText env inp)) = None) \<and>
   (good inp \<and> after_type_token inp \<noteq> [] \<and>
    type_token inp \<notin> {Sphere_STRING_NAME, Box_STRING_NAME, Cylinder_STRING_NAME,
                        Cone_STRING_NAME, Plane_STRING_NAME, Mesh_STRING_NAME} \<longrightarrow>
      fst (constructShapeFromText env inp) = logError (unknown_type_msg (type_token inp)) \<and>
      fst (snd (constructShapeFromText env inp)) = None)"
proof (cases "good inp")
  case False
  then show ?thesis by (simp add: text_not_good)
next
  case True
  obtain t s0 where g: "get_string inp [] = (t, s0)" by (cases "get_string inp []")
  have gs: "good s0 \<longleftrightarrow> after_type_token inp \<noteq> []"
    using get_string_good[OF True, of "[]"] g by (simp add: after_type_token_def)
  show ?thesis
  proof (cases "good s0")
    case False
    with gs True g show ?thesis by (simp add: text_token_not_good[OF True g])
  next
    case good: True
    then have t: "t = type_token inp"
      using get_string_token[OF True, of "[]"] g by (simp add: type_token_def)
    show ?thesis
    proof (cases "t \<in> {Sphere_STRING_NAME, Box_STRING_NAME, Cylinder_STRING_NAME,
                        Cone_STRING_NAME, Plane_STRING_NAME, Mesh_STRING_NAME}")
      case known: True
      then show ?thesis using True good gs unfolding t by simp
    next
      case unknown: False
      have "constructShapeFromText env inp = (logError (unknown_type_msg t), None, s0)"
        using True g good unknown by (rule text_unknown)
      then show ?thesis using True good gs unknown unfolding t by simp
    qed
  qed
qed

theorem constructShapeFromText_failures_witness:
  "\<not> good \<lparr>chars = ''sphere 1'', eofbit = True, failbit = False\<rparr> \<and>
   fst (snd (constructShapeFromText example_env
               \<lparr>chars = ''sphere 1'', eofbit = True, failbit = False\<rparr>)) = None \<and>
   after_type_token (text_stream ''sphere'') = [] \<and>
   fst (snd (constructShapeFromText example_env (text_stream ''sphere''))) = None \<and>
   fst (constructShapeFromText example_env (text_stream ''sphere'')) = [] \<and>
   good (text_stream ''blob 1 2 3'') \<and> after_type_token (text_stream ''blob 1 2 3'') \<noteq> [] \<and>
   fst (constructShapeFromText example_env (text_stream ''blob 1 2 3'')) =
     logError (unknown_type_msg ''blob'') \<and>
   fst (snd (constructShapeFromText example_env (text_stream ''blob 1 2 3''))) = None"
  using
    constructShapeFromText_failures
      [of "\<lparr>chars = ''sphere 1'', eofbit = True, failbit = False\<rparr>" example_env]
    constructShapeFromText_failures[of "text_stream ''sphere''" example_env]
    constructShapeFromText_failures[of "text_stream ''blob 1 2 3''" example_env]
  by (simp add: good_def text_stream_def after_type_token_def type_token_def isspace_def
      type_names)

subsection \<open>Saving a shape as text and loading it\<close>

lemma decimal_digits_lt10: "n < 10 \<Longrightarrow> decimal_digits n = [digit_char n]"
  by (simp add: decimal_digits.simps)

lemma decimal_digits_ge10:
  "\<not> n < 10 \<Longrightarrow> decimal_digits n = decimal_digits (n div 10) @ [digit_char (n mod 10)]"
  by (subst decimal_digits.simps) simp

lemmas save_defs = example_saved_text_def new_ostream_def put_string_def endl_def put_real_def put_nat_def
  put_real3_def put_nat3_def example_put_def example_put_double_def example_put_number_def
  strip_zeros_def decimal_digits_lt10 decimal_digits_ge10 digit_char_def Let_def double_arith

lemmas load_defs = constructShapeFromText_def stream_defs type_names example_defs

text \<open>
  Normals are not written, and those of a loaded mesh are the computed ones.
\<close>

lemma saveAsText_ignores_normals:
  "saveAsText lib (MeshShape (m\<lparr>normals := ns\<rparr>)) out = saveAsText lib (MeshShape m) out"
  by simp

lemma text_mesh_normals_recomputed:
  assumes "fst (snd (constructShapeFromText env inp)) = Some (MeshShape m)"
  shows "normals m = concat (map (triangle_normal m) [0..<triangle_count m])"
proof -
  from assms obtain m0 where "m = computeNormals m0"
    by (auto simp: constructShapeFromText_def split: if_splits prod.splits)
  then show ?thesis by (simp only: normals_computeNormals_self)
qed

text \<open>A box whose sizes have few digits is loaded as it was saved.\<close>

lemma text_round_trip_example_box:
  "fst (snd (constructShapeFromText example_env (text_stream (example_saved_text (Box 1 (5 / 2) 30))))) =
     Some (Box 1 (5 / 2) 30)"
proof -
  have s: "example_saved_text (Box 1 (5 / 2) 30) = ''box'' @ [CHR 0x0A] @ ''1 2.5 30'' @ [CHR 0x0A]"
    by (simp add: save_defs type_names)
  show ?thesis unfolding s by (simp add: load_defs)
qed

text \<open>
  Claim C3, at a sphere whose radius \<open>1 + 1 / 2 ^ 20\<close> has more than six significant
  digits: on a stream as it is constructed the radius is written as \<open>1\<close>, and the
  sphere loaded from the text has radius \<open>1\<close>.
\<close>

theorem text_round_trip_loses_digits:
  "example_saved_text (Sphere (1 + 1 / 2 ^ 20)) = ''sphere'' @ [CHR 0x0A] @ ''1'' @ [CHR 0x0A] \<and>
   fst (snd (constructShapeFromText example_env
               (text_stream (example_saved_text (Sphere (1 + 1 / 2 ^ 20)))))) = Some (Sphere 1) \<and>
   Sphere 1 \<noteq> Sphere (1 + 1 / 2 ^ 20)"
proof -
  have s: "example_saved_text (Sphere (1 + 1 / 2 ^ 20)) = ''sphere'' @ [CHR 0x0A] @ ''1'' @ [CHR 0x0A]"
    by (simp add: save_defs type_names)
  have l: "fst (snd (constructShapeFromText example_env
               (text_stream (''sphere'' @ [CHR 0x0A] @ ''1'' @ [CHR 0x0A])))) = Some (Sphere 1)"
    by (simp add: load_defs)
  have d: "Sphere 1 \<noteq> Sphere (1 + 1 / 2 ^ 20)" by (simp add: double_arith)
  show ?thesis unfolding s using l d by simp
qed

end
